theory Spec2Isabelle
  imports Complex_Main "HOL-Library.Word"
begin

section \<open>JavaScript values\<close>

text \<open>
  A JavaScript string is a sequence of UTF-16 code units and \<open>.length\<close> counts code
  units, so a string is a list of 16-bit words.  \<open>ascii\<close> embeds an ASCII literal.
  Numbers are IEEE doubles in the source.  Counters, millisecond clocks and the numbers
  of a work template are integers that doubles hold exactly: they are \<open>nat\<close>, \<open>int\<close> and
  \<open>real\<close>.  The difficulties of a connection go through floating-point arithmetic and are
  doubles (\<open>number\<close>, below), rounded as the engine rounds.
\<close>

type_synonym code_unit = "16 word"
type_synonym jsstring = "code_unit list"
type_synonym buffer = "8 word list"

definition ascii :: "string \<Rightarrow> jsstring" where
  "ascii s = map (\<lambda>c. of_nat (of_char c)) s"

datatype json =
    JNull
  | JBool bool
  | JNumber real
  | JString jsstring
  | JArray "json list"
  | JObject "(jsstring \<times> json) list"

text \<open>What the source throws: \<open>assert\<close> of bsert, \<open>new Error\<close>, and the built-in errors.\<close>

datatype error =
    AssertionError string
  | Error string
  | SyntaxError
  | TypeError

section \<open>constants.js\<close>

definition NONCE_SIZE :: nat where
  "NONCE_SIZE = 4"

section \<open>util.js\<close>

definition isUsername :: "json \<Rightarrow> bool" where
  "isUsername username =
     (case username of
        JString s \<Rightarrow> length s > 0 \<and> length s \<le> 100
      | _ \<Rightarrow> False)"

definition isJob :: "json \<Rightarrow> bool" where
  "isJob id' =
     (case id' of
        JString s \<Rightarrow> length s \<ge> 12 \<and> length s \<le> 21
      | _ \<Rightarrow> False)"

text \<open>
  The character class \<open>[0-9a-f]\<close> under the \<open>i\<close> flag: the digits and the letters a to f
  in either case (no code unit outside ASCII canonicalizes to an ASCII letter).
\<close>

definition hexClass :: "code_unit \<Rightarrow> bool" where
  "hexClass c = ((0x30 \<le> c \<and> c \<le> 0x39) \<or> (0x61 \<le> c \<and> c \<le> 0x66) \<or> (0x41 \<le> c \<and> c \<le> 0x46))"

text \<open>
  \<open>/^[0-9a-f]$/i.test(str)\<close>: the pattern is anchored at both ends (without the \<open>m\<close>
  flag \<open>$\<close> is the end of the input) and has one class atom with no quantifier, so it
  matches the strings of exactly one code unit of the class.
\<close>

definition hexPattern_test :: "jsstring \<Rightarrow> bool" where
  "hexPattern_test str = (case str of [c] \<Rightarrow> hexClass c | _ \<Rightarrow> False)"

definition isHex :: "json \<Rightarrow> bool" where
  "isHex str =
     (case str of
        JString s \<Rightarrow> length s mod 2 = 0 \<and> hexPattern_test s
      | _ \<Rightarrow> False)"

definition isSID :: "json \<Rightarrow> bool" where
  "isSID sid =
     (case sid of
        JString s \<Rightarrow> length s = 8 \<and> isHex sid
      | _ \<Rightarrow> False)"

section \<open>Submission\<close>

text \<open>
  \<open>parseInt(s, 16)\<close>: leading white space is skipped, then an optional sign, then an
  optional \<open>0x\<close>/\<open>0X\<close>, then the longest run of hexadecimal digits; \<open>None\<close> is NaN.
\<close>

definition isWhiteSpace :: "code_unit \<Rightarrow> bool" where
  "isWhiteSpace c =
     (c \<in> {0x09, 0x0A, 0x0B, 0x0C, 0x0D, 0x20, 0xA0, 0x1680, 0x2028, 0x2029, 0x202F, 0x205F,
            0x3000, 0xFEFF}
      \<or> (0x2000 \<le> c \<and> c \<le> 0x200A))"

definition hexValue :: "code_unit \<Rightarrow> int" where
  "hexValue c =
     (if c \<le> 0x39 then uint c - 0x30
      else if c \<le> 0x46 then uint c - 0x41 + 10
      else uint c - 0x61 + 10)"

definition parseInt16 :: "jsstring \<Rightarrow> int option" where
  "parseInt16 str =
     (let s = dropWhile isWhiteSpace str;
          neg = (s \<noteq> [] \<and> hd s = 0x2D);
          s = (if s \<noteq> [] \<and> (hd s = 0x2B \<or> hd s = 0x2D) then tl s else s);
          s = (if length s \<ge> 2 \<and> hd s = 0x30 \<and> (hd (tl s) = 0x78 \<or> hd (tl s) = 0x58)
               then tl (tl s) else s);
          z = takeWhile hexClass s
      in if z = [] then None
         else Some ((if neg then -1 else 1) * foldl (\<lambda>acc c. 16 * acc + hexValue c) 0 z))"

record ClientPacket =
  id :: json
  "method" :: jsstring
  params :: "json list"

record Submission =
  username :: jsstring
  job :: jsstring
  nonce2 :: "int option"
  ts :: "int option"
  nonce :: jsstring

text \<open>The string behind a value already checked to be one.\<close>

fun str_of :: "json \<Rightarrow> jsstring" where
  "str_of (JString s) = s"
| "str_of _ = []"

definition is_string :: "json \<Rightarrow> bool" where
  "is_string v = (case v of JString _ \<Rightarrow> True | _ \<Rightarrow> False)"

definition Submission_fromPacket :: "ClientPacket \<Rightarrow> error + Submission" where
  "Submission_fromPacket msg =
     (let p = params msg in
      if \<not> length p \<ge> 5 then Inl (AssertionError ''Invalid parameters.'')
      else if \<not> isUsername (p ! 0) then Inl (AssertionError ''Name must be a string.'')
      else if \<not> isJob (p ! 1) then Inl (AssertionError ''Job ID must be a string.'')
      else if \<not> is_string (p ! 2) then Inl (AssertionError ''Nonce2 must be a string.'')
      else if \<not> length (str_of (p ! 2)) = NONCE_SIZE * 2
        then Inl (AssertionError ''Nonce2 must be a string.'')
      else if \<not> isHex (p ! 2) then Inl (AssertionError ''Nonce2 must be a string.'')
      else if \<not> is_string (p ! 3) then Inl (AssertionError ''Time must be a string.'')
      else if \<not> length (str_of (p ! 3)) = 8 then Inl (AssertionError ''Time must be a string.'')
      else if \<not> isHex (p ! 3) then Inl (AssertionError ''Time must be a string.'')
      else if \<not> is_string (p ! 4) then Inl (AssertionError ''Nonce must be a string.'')
      else if \<not> isHex (p ! 4) then Inl (AssertionError ''Nonce must be a string.'')
      else Inr \<lparr> username = str_of (p ! 0),
                 job = str_of (p ! 1),
                 nonce2 = parseInt16 (str_of (p ! 2)),
                 ts = parseInt16 (str_of (p ! 3)),
                 nonce = str_of (p ! 4) \<rparr>)"

section \<open>ClientPacket\<close>

text \<open>
  \<open>JSON.parse\<close> is the engine's; it is a parameter of the model (\<open>None\<close>: it threw a
  SyntaxError).  An object is the list of its own properties; reading a property of
  \<open>null\<close> is a TypeError, reading one that is absent gives \<open>undefined\<close> (\<open>None\<close>).
\<close>

definition getProp :: "json \<Rightarrow> string \<Rightarrow> json option" where
  "getProp v k = (case v of JObject kvs \<Rightarrow> map_of kvs (ascii k) | _ \<Rightarrow> None)"

definition truthy :: "json option \<Rightarrow> bool" where
  "truthy v =
     (case v of
        None \<Rightarrow> False
      | Some JNull \<Rightarrow> False
      | Some (JBool b) \<Rightarrow> b
      | Some (JNumber n) \<Rightarrow> n \<noteq> 0
      | Some (JString s) \<Rightarrow> s \<noteq> []
      | Some _ \<Rightarrow> True)"

definition ClientPacket_fromRaw :: "(jsstring \<Rightarrow> json option) \<Rightarrow> jsstring \<Rightarrow> error + ClientPacket" where
  "ClientPacket_fromRaw JSON_parse json =
     (case JSON_parse json of
        None \<Rightarrow> Inl SyntaxError
      | Some msg \<Rightarrow>
          if msg = JNull then Inl TypeError
          else
            let packet = \<lparr> id = JNull, method = ascii ''unknown'', params = [] \<rparr>;
                has_id = (case getProp msg ''id'' of None \<Rightarrow> False | Some JNull \<Rightarrow> False
                          | Some _ \<Rightarrow> True);
                id_ok = (case getProp msg ''id'' of Some (JString _) \<Rightarrow> True
                         | Some (JNumber _) \<Rightarrow> True | _ \<Rightarrow> False)
            in if has_id \<and> \<not> id_ok then Inl (AssertionError ''Assertion failed.'')
               else
                 let packet = (if has_id then packet\<lparr> id := the (getProp msg ''id'') \<rparr> else packet) in
                 (case getProp msg ''method'' of
                    Some (JString m) \<Rightarrow>
                      if \<not> length m \<le> 50 then Inl (AssertionError ''Assertion failed.'')
                      else
                        let packet = packet\<lparr> method := m \<rparr> in
                        if truthy (getProp msg ''params'') then
                          (case getProp msg ''params'' of
                             Some (JArray ps) \<Rightarrow> Inr (packet\<lparr> params := ps \<rparr>)
                           | _ \<Rightarrow> Inl (AssertionError ''Assertion failed.''))
                        else Inr packet
                  | _ \<Rightarrow> Inl (AssertionError ''Assertion failed.'')))"

section \<open>Numbers and hexadecimal text\<close>

text \<open>\<open>x >>> 0\<close>: truncate towards zero, then reduce modulo \<open>2^32\<close>.\<close>

definition toUint32 :: "real \<Rightarrow> nat" where
  "toUint32 x = nat ((if x \<ge> 0 then \<lfloor>x\<rfloor> else - \<lfloor>- x\<rfloor>) mod 2 ^ 32)"

definition hexDigit :: "nat \<Rightarrow> code_unit" where
  "hexDigit d = (if d < 10 then of_nat (0x30 + d) else of_nat (0x61 + (d - 10)))"

text \<open>\<open>num.toString(16)\<close> on a non-negative integer.\<close>

fun toString16 :: "nat \<Rightarrow> jsstring" where
  "toString16 n = (if n < 16 then [hexDigit n] else toString16 (n div 16) @ [hexDigit (n mod 16)])"

declare toString16.simps [simp del]

text \<open>Decimal text of a non-negative integer, as a template literal renders it.\<close>

fun toString10 :: "nat \<Rightarrow> jsstring" where
  "toString10 n = (if n < 10 then [hexDigit n] else toString10 (n div 10) @ [hexDigit (n mod 10)])"

declare toString10.simps [simp del]

text \<open>\<open>buf.toString('hex')\<close>: two lower-case digits for each byte.\<close>

definition toHex :: "buffer \<Rightarrow> jsstring" where
  "toHex buf = concat (map (\<lambda>b. [hexDigit (unat b div 16), hexDigit (unat b mod 16)]) buf)"

definition hex32 :: "real \<Rightarrow> error + jsstring" where
  "hex32 num =
     (if real (toUint32 num) \<noteq> num then Inl (AssertionError ''Assertion failed.'')
      else
        let num = toString16 (toUint32 num) in
        if length num = 1 then Inr (ascii ''0000000'' @ num)
        else if length num = 2 then Inr (ascii ''000000'' @ num)
        else if length num = 3 then Inr (ascii ''00000'' @ num)
        else if length num = 4 then Inr (ascii ''0000'' @ num)
        else if length num = 5 then Inr (ascii ''000'' @ num)
        else if length num = 6 then Inr (ascii ''00'' @ num)
        else if length num = 7 then Inr (ascii ''0'' @ num)
        else if length num = 8 then Inr num
        else Inl (Error []))"

section \<open>Doubles\<close>

text \<open>
  A number that takes part in floating-point arithmetic is a double: a finite value,
  NaN or an infinity.  A finite double is given by its exact value; a zero is taken as
  \<open>+0\<close> (\<open>retarget\<close> divides by positive values and by zeros that come from positive
  ones only).  \<open>fl\<close> is IEEE 754 rounding to the nearest double, ties to even: \<open>ilog2\<close> is
  the binary exponent, not below that of the subnormals, \<open>ulp\<close> the spacing of the
  doubles at that exponent; a result of \<open>2^1024\<close> or more is an infinity.
\<close>

datatype number = Fin real | NaN | PInf | NInf

function ilog2_up :: "real \<Rightarrow> int" where
  "ilog2_up a = (if a < 2 then 0 else 1 + ilog2_up (a / 2))"
  by pat_completeness auto
termination
proof (relation "measure (\<lambda>a. nat \<lfloor>a\<rfloor>)")
  show "wf (measure (\<lambda>a :: real. nat \<lfloor>a\<rfloor>))" by simp
next
  fix a :: real
  assume "\<not> a < 2"
  then have "a / 2 \<le> a - 1" and "2 \<le> \<lfloor>a\<rfloor>" by (simp_all add: le_floor_iff)
  then have "\<lfloor>a / 2\<rfloor> \<le> \<lfloor>a - 1\<rfloor>" by (simp only: floor_mono)
  then have "\<lfloor>a / 2\<rfloor> < \<lfloor>a\<rfloor>" by simp
  with \<open>2 \<le> \<lfloor>a\<rfloor>\<close> show "(a / 2, a) \<in> measure (\<lambda>a. nat \<lfloor>a\<rfloor>)" by simp
qed

function ilog2_down :: "real \<Rightarrow> int" where
  "ilog2_down a = (if a \<le> 0 \<or> 1 \<le> a then 0 else ilog2_down (2 * a) - 1)"
  by pat_completeness auto
termination
proof (relation "measure (\<lambda>a. nat \<lfloor>1 / a\<rfloor>)")
  show "wf (measure (\<lambda>a :: real. nat \<lfloor>1 / a\<rfloor>))" by simp
next
  fix a :: real
  assume "\<not> (a \<le> 0 \<or> 1 \<le> a)"
  then have a: "0 < a" "a < 1" by simp_all
  define b where "b = 1 / a"
  from a have b: "1 < b" by (simp add: b_def)
  have half: "1 / (2 * a) = b / 2" by (simp add: b_def)
  have "\<lfloor>b / 2\<rfloor> < \<lfloor>b\<rfloor>"
  proof (cases "b < 2")
    case True
    with b have "\<lfloor>b / 2\<rfloor> = 0" by (simp add: floor_eq_iff)
    moreover from b have "1 \<le> \<lfloor>b\<rfloor>" by (simp add: le_floor_iff)
    ultimately show ?thesis by simp
  next
    case False
    then have "b / 2 \<le> b - 1" by simp
    then have "\<lfloor>b / 2\<rfloor> \<le> \<lfloor>b - 1\<rfloor>" by (simp only: floor_mono)
    then show ?thesis by simp
  qed
  moreover from b have "0 < \<lfloor>b\<rfloor>" by (simp add: less_floor_iff)
  ultimately show "(2 * a, a) \<in> measure (\<lambda>a. nat \<lfloor>1 / a\<rfloor>)"
    by (simp add: half b_def [symmetric])
qed

declare ilog2_up.simps [simp del]
declare ilog2_down.simps [simp del]

definition ilog2 :: "real \<Rightarrow> int" where
  "ilog2 a = (if 1 \<le> a then ilog2_up a else ilog2_down a)"

definition rne :: "real \<Rightarrow> int" where
  "rne q =
     (let f = \<lfloor>q\<rfloor>; r = q - of_int f
      in if r < 1 / 2 then f else if r > 1 / 2 then f + 1 else if even f then f else f + 1)"

definition ulp :: "int \<Rightarrow> real" where
  "ulp e = (if e \<ge> 52 then 2 ^ nat (e - 52) else 1 / 2 ^ nat (52 - e))"

definition fl_pack :: "real \<Rightarrow> real \<Rightarrow> number" where
  "fl_pack x r = (if r \<ge> 2 ^ 1024 then (if x > 0 then PInf else NInf) else Fin (sgn x * r))"

definition fl_at :: "real \<Rightarrow> int \<Rightarrow> number" where
  "fl_at x e = fl_pack x (of_int (rne (\<bar>x\<bar> / ulp e)) * ulp e)"

definition fl :: "real \<Rightarrow> number" where
  "fl x = (if x = 0 then Fin 0 else fl_at x (max (ilog2 \<bar>x\<bar>) (- 1022)))"

text \<open>The product and the quotient of two doubles.\<close>

fun fmul :: "number \<Rightarrow> number \<Rightarrow> number" where
  "fmul NaN b = NaN"
| "fmul a NaN = NaN"
| "fmul (Fin x) (Fin y) = fl (x * y)"
| "fmul (Fin x) PInf = (if x = 0 then NaN else if x > 0 then PInf else NInf)"
| "fmul (Fin x) NInf = (if x = 0 then NaN else if x > 0 then NInf else PInf)"
| "fmul PInf (Fin y) = (if y = 0 then NaN else if y > 0 then PInf else NInf)"
| "fmul NInf (Fin y) = (if y = 0 then NaN else if y > 0 then NInf else PInf)"
| "fmul PInf PInf = PInf"
| "fmul PInf NInf = NInf"
| "fmul NInf PInf = NInf"
| "fmul NInf NInf = PInf"

fun fdiv :: "number \<Rightarrow> number \<Rightarrow> number" where
  "fdiv NaN b = NaN"
| "fdiv a NaN = NaN"
| "fdiv (Fin x) (Fin y) =
     (if y = 0 then (if x = 0 then NaN else if x > 0 then PInf else NInf) else fl (x / y))"
| "fdiv (Fin x) PInf = Fin 0"
| "fdiv (Fin x) NInf = Fin 0"
| "fdiv PInf (Fin y) = (if y \<ge> 0 then PInf else NInf)"
| "fdiv NInf (Fin y) = (if y \<ge> 0 then NInf else PInf)"
| "fdiv PInf PInf = NaN"
| "fdiv PInf NInf = NaN"
| "fdiv NInf PInf = NaN"
| "fdiv NInf NInf = NaN"

text \<open>\<open>a > b\<close>: false when either side is NaN.\<close>

fun js_gt :: "number \<Rightarrow> number \<Rightarrow> bool" where
  "js_gt NaN b = False"
| "js_gt a NaN = False"
| "js_gt (Fin x) (Fin y) = (x > y)"
| "js_gt (Fin x) PInf = False"
| "js_gt (Fin x) NInf = True"
| "js_gt PInf (Fin y) = True"
| "js_gt PInf PInf = False"
| "js_gt PInf NInf = True"
| "js_gt NInf b = False"

text \<open>\<open>Math.min\<close> and \<open>Math.max\<close> of two numbers: NaN when either is NaN.\<close>

definition Math_min :: "number \<Rightarrow> number \<Rightarrow> number" where
  "Math_min a b = (if a = NaN \<or> b = NaN then NaN else if js_gt a b then b else a)"

definition Math_max :: "number \<Rightarrow> number \<Rightarrow> number" where
  "Math_max a b = (if a = NaN \<or> b = NaN then NaN else if js_gt b a then b else a)"

text \<open>\<open>d >>> 0\<close> on a double: NaN and the infinities give \<open>0\<close>.\<close>

definition number_toUint32 :: "number \<Rightarrow> nat" where
  "number_toUint32 d = (case d of Fin x \<Rightarrow> toUint32 x | _ \<Rightarrow> 0)"

text \<open>
  A number as a JSON value: \<open>JSON.stringify\<close> writes one that is not finite as
  \<open>null\<close>.
\<close>

definition number_json :: "number \<Rightarrow> json" where
  "number_json d = (case d of Fin x \<Rightarrow> JNumber x | _ \<Rightarrow> JNull)"

section \<open>Job\<close>

text \<open>
  The work template (\<open>attempt\<close>) belongs to the work source.  It is modelled by the data
  that the Job reads from it: an item's \<open>tx\<close>, when there is one, stands for what
  \<open>tx.hash()\<close> returns, \<open>tree\<close> for what \<open>tree.toJSON()\<close> returns, \<open>getDifficulty\<close> for
  what that call returns, and \<open>commit\<close> is the template's own method.  What
  \<open>refresh()\<close> does to the template is the work source's business.  The leaf hash
  \<open>merkle.hashLeaf(BLAKE2b256, _)\<close> is a parameter.
\<close>

record item =
  tx :: "buffer option"

record ('share, 'block) attempt =
  prevBlock :: buffer
  left :: buffer
  right :: buffer
  items :: "item list"
  tree :: json
  treeRoot :: buffer
  filterRoot :: buffer
  reservedRoot :: buffer
  version :: real
  bits :: real
  time :: real
  target :: buffer
  getDifficulty :: real
  commit :: "'share \<Rightarrow> error + 'block"

record ('share, 'block) Job =
  id :: jsstring
  attempt :: "('share, 'block) attempt option"
  target :: buffer
  difficulty :: real
  submissions :: "buffer set"
  committed :: bool

definition ZERO_HASH :: buffer where
  "ZERO_HASH = replicate 32 0"

definition new_Job :: "jsstring \<Rightarrow> ('share, 'block) Job" where
  "new_Job i = \<lparr> id = i, attempt = None, target = ZERO_HASH, difficulty = 0,
                 submissions = {}, committed = False \<rparr>"

definition Job_fromTemplate :: "jsstring \<Rightarrow> ('share, 'block) attempt \<Rightarrow> ('share, 'block) Job" where
  "Job_fromTemplate i a =
     (new_Job i)\<lparr> attempt := Some a, target := attempt.target a, difficulty := getDifficulty a \<rparr>"

definition Job_insert :: "buffer \<Rightarrow> ('share, 'block) Job \<Rightarrow> bool \<times> ('share, 'block) Job" where
  "Job_insert hash j =
     (if hash \<in> submissions j then (False, j)
      else (True, j\<lparr> submissions := insert hash (submissions j) \<rparr>))"

text \<open>
  The flag is set before the template's \<open>commit\<close> runs, so it stays set when that call
  throws or when there is no template (\<open>this.attempt\<close> is \<open>null\<close>: a TypeError).
\<close>

definition Job_commit :: "'share \<Rightarrow> ('share, 'block) Job \<Rightarrow> (error + 'block) \<times> ('share, 'block) Job" where
  "Job_commit share j =
     (if committed j then (Inl (AssertionError ''Already committed.''), j)
      else
        let j = j\<lparr> committed := True \<rparr> in
        (case attempt j of
           None \<Rightarrow> (Inl TypeError, j)
         | Some a \<Rightarrow> (commit a share, j)))"

definition Job_toJSON :: "(buffer \<Rightarrow> buffer) \<Rightarrow> ('share, 'block) Job \<Rightarrow> error + json list" where
  "Job_toJSON hashLeaf j =
     (case attempt j of
        None \<Rightarrow> Inl TypeError
      | Some a \<Rightarrow>
          (let itemTx = map (\<lambda>h. JString (toHex (hashLeaf h))) (List.map_filter tx (items a)) in
           case hex32 (version a) of
             Inl e \<Rightarrow> Inl e
           | Inr v \<Rightarrow>
               (case hex32 (bits a) of
                  Inl e \<Rightarrow> Inl e
                | Inr b \<Rightarrow>
                    (case hex32 (time a) of
                       Inl e \<Rightarrow> Inl e
                     | Inr t \<Rightarrow>
                         Inr [JString (id j),
                              JString (toHex (prevBlock a)),
                              JString (toHex (left a)),
                              JString (toHex (right a)),
                              JArray itemTx,
                              tree a,
                              JString (toHex (treeRoot a)),
                              JString (toHex (filterRoot a)),
                              JString (toHex (reservedRoot a)),
                              JString v,
                              JString b,
                              JString t,
                              JBool False]))))"

text \<open>
  Runs of calls on one Job, in order.  A call of \<open>insert\<close> is written with the connection
  it is made for; \<open>Job.insert\<close> itself receives the hash only.
\<close>

fun insert_all :: "(nat \<times> buffer) list \<Rightarrow> ('share, 'block) Job \<Rightarrow> bool list \<times> ('share, 'block) Job" where
  "insert_all [] j = ([], j)"
| "insert_all (call # calls) j =
     (let (r, j) = Job_insert (snd call) j;
          (rs, j) = insert_all calls j
      in (r # rs, j))"

fun commit_all :: "'share list \<Rightarrow> ('share, 'block) Job \<Rightarrow> (error + 'block) list \<times> ('share, 'block) Job" where
  "commit_all [] j = ([], j)"
| "commit_all (share # shares) j =
     (let (r, j) = Job_commit share j;
          (rs, j) = commit_all shares j
      in (r # rs, j))"

text \<open>A template and a hash function to run the Job on.\<close>

definition sample_attempt :: "(nat, nat) attempt" where
  "sample_attempt =
     \<lparr> prevBlock = [0x00, 0x1f], left = [0x01], right = [0x02],
       items = [\<lparr> tx = Some [0xab] \<rparr>, \<lparr> tx = None \<rparr>], tree = JArray [],
       treeRoot = [0x03], filterRoot = [0x04], reservedRoot = [0x05],
       version = 0, bits = 486604799, time = 1570000000,
       target = [0xff], getDifficulty = 1, commit = (\<lambda>share. Inr (share + 1)) \<rparr>"

section \<open>Connection\<close>

text \<open>
  What a connection does to the outside is kept in \<open>events\<close>, in order: the texts
  handed to \<open>socket.write\<close>, the destruction of the lock and of the socket, and the
  events it emits.  An emitted event is recorded only: what its listeners (stratum.js)
  do in response is outside the model.  Logging is left out, and so are the fields no
  modelled method reads (host, agent, users, ban score, list pointers).
\<close>

datatype event =
    Socket_write jsstring
  | Locker_destroy
  | Socket_destroy
  | Emit_error error
  | Emit_packet ClientPacket
  | Emit_close

record Connection =
  recv :: jsstring
  sid :: real
  difficulty :: number
  nextDifficulty :: number
  drainSize :: nat
  destroyed :: bool
  lastRetarget :: int
  submissions :: nat
  events :: "event list"

text \<open>
  The surroundings of a connection: the engine's JSON functions, the socket's answer to
  a write (\<open>False\<close> is back-pressure; it may depend on all that happened before), the
  leaf hash of the work source, and the two options the redirect reads.
\<close>

record env =
  JSON_parse :: "jsstring \<Rightarrow> json option"
  JSON_stringify :: "json \<Rightarrow> jsstring"
  socket_write :: "event list \<Rightarrow> jsstring \<Rightarrow> bool"
  hashLeaf :: "buffer \<Rightarrow> buffer"
  publicHost :: jsstring
  publicPort :: nat

definition new_Connection :: Connection where
  "new_Connection = \<lparr> recv = [], sid = -1, difficulty = Fin (- 1), nextDifficulty = Fin (- 1),
                       drainSize = 0,
                       destroyed = False, lastRetarget = -1, submissions = 0, events = [] \<rparr>"

definition destroy :: "Connection \<Rightarrow> Connection" where
  "destroy c =
     (if destroyed c then c
      else c\<lparr> destroyed := True,
               events := events c @ [Locker_destroy, Socket_destroy, Emit_close] \<rparr>)"

text \<open>\<open>Buffer.byteLength(text, "utf8")\<close>: a surrogate pair takes four bytes.\<close>

fun byteLength :: "jsstring \<Rightarrow> nat" where
  "byteLength [] = 0"
| "byteLength [c] = (if c < 0x80 then 1 else if c < 0x800 then 2 else 3)"
| "byteLength (c # d # cs) =
     (if c < 0x80 then 1 + byteLength (d # cs)
      else if c < 0x800 then 2 + byteLength (d # cs)
      else if 0xD800 \<le> c \<and> c \<le> 0xDBFF \<and> 0xDC00 \<le> d \<and> d \<le> 0xDFFF then 4 + byteLength cs
      else 3 + byteLength (d # cs))"

definition Connection_write :: "env \<Rightarrow> jsstring \<Rightarrow> Connection \<Rightarrow> Connection" where
  "Connection_write E text c =
     (if destroyed c then c
      else
        let ok = socket_write E (events c) text;
            c = c\<lparr> events := events c @ [Socket_write text] \<rparr>
        in if \<not> ok then
             let c = c\<lparr> drainSize := drainSize c + byteLength text \<rparr> in
             if drainSize c > 5 * 2 ^ 20 then destroy c else c
           else c)"

definition send :: "env \<Rightarrow> json \<Rightarrow> Connection \<Rightarrow> Connection" where
  "send E json c =
     (if destroyed c then c
      else Connection_write E (JSON_stringify E json @ [0x0A]) c)"

text \<open>
  \<open>error(err)\<close> emits an error unless the connection is destroyed.  The text it appends
  to the message (the connection's id) is left out.
\<close>

definition Connection_error :: "error \<Rightarrow> Connection \<Rightarrow> Connection" where
  "Connection_error err c =
     (if destroyed c then c
      else c\<lparr> events := events c @ [Emit_error err] \<rparr>)"

fun join :: "jsstring \<Rightarrow> jsstring list \<Rightarrow> jsstring" where
  "join sep [] = []"
| "join sep [x] = x"
| "join sep (x # y # ys) = x @ sep @ join sep (y # ys)"

definition redirect_response :: "env \<Rightarrow> jsstring" where
  "redirect_response E =
     join [0x0D, 0x0A]
       [ascii ''HTTP/1.1 200 OK'',
        ascii ''X-Stratum: stratum+tcp://'' @ publicHost E @ ascii '':'' @ toString10 (publicPort E),
        ascii ''Connection: Close'',
        ascii ''Content-Type: application/json; charset=utf-8'',
        ascii ''Content-Length: 38'',
        [],
        [],
        ascii ''{\"error\":null,\"result\":false,\"id\":0}'']"

definition redirect :: "env \<Rightarrow> Connection \<Rightarrow> Connection" where
  "redirect E c = destroy (Connection_write E (redirect_response E) c)"

text \<open>
  \<open>/HTTP\/1\.1/i.test(recv)\<close>: the text occurs somewhere in the buffer, letters in
  either case.
\<close>

definition upper :: "code_unit \<Rightarrow> code_unit" where
  "upper c = (if 0x61 \<le> c \<and> c \<le> 0x7A then c - 0x20 else c)"

fun prefix_ci :: "jsstring \<Rightarrow> jsstring \<Rightarrow> bool" where
  "prefix_ci [] s = True"
| "prefix_ci (p # ps) [] = False"
| "prefix_ci (p # ps) (c # cs) = (upper p = upper c \<and> prefix_ci ps cs)"

fun search_ci :: "jsstring \<Rightarrow> jsstring \<Rightarrow> bool" where
  "search_ci pat [] = prefix_ci pat []"
| "search_ci pat (c # cs) = (prefix_ci pat (c # cs) \<or> search_ci pat cs)"

definition http_test :: "jsstring \<Rightarrow> bool" where
  "http_test s = search_ci (ascii ''HTTP/1.1'') s"

text \<open>
  \<open>s.split(/\n+/)\<close>: the pieces between runs of line feeds; the last piece is what
  follows the last line feed.  \<open>acc\<close> is the piece being read.
\<close>

function split_lines :: "jsstring \<Rightarrow> jsstring \<Rightarrow> jsstring list" where
  "split_lines acc [] = [acc]"
| "split_lines acc (c # cs) =
     (if c = 0x0A then acc # split_lines [] (dropWhile (\<lambda>x. x = 0x0A) cs)
      else split_lines (acc @ [c]) cs)"
  by pat_completeness auto
termination
proof (relation "measure (\<lambda>(acc, s). length s)")
  show "wf (measure (\<lambda>(acc :: jsstring, s :: jsstring). length s))"
    by simp
next
  fix acc :: jsstring and c :: code_unit and cs :: jsstring
  have "length (dropWhile (\<lambda>x. x = 0x0A) cs) \<le> length cs"
    by (rule length_dropWhile_le)
  then show "(([], dropWhile (\<lambda>x. x = 0x0A) cs), acc, c # cs) \<in> measure (\<lambda>(acc, s). length s)"
    by simp
next
  fix acc :: jsstring and c :: code_unit and cs :: jsstring
  show "((acc @ [c], cs), acc, c # cs) \<in> measure (\<lambda>(acc, s). length s)"
    by simp
qed

text \<open>The loop over the complete lines: an empty line is skipped.\<close>

fun feed_lines :: "env \<Rightarrow> jsstring list \<Rightarrow> Connection \<Rightarrow> Connection" where
  "feed_lines E [] c = c"
| "feed_lines E (line # lines) c =
     (if length line = 0 then feed_lines E lines c
      else
        (case ClientPacket_fromRaw (JSON_parse E) line of
           Inl e \<Rightarrow> feed_lines E lines (Connection_error e c)
         | Inr msg \<Rightarrow> feed_lines E lines (c\<lparr> events := events c @ [Emit_packet msg] \<rparr>)))"

text \<open>
  \<open>feed(data)\<close>; \<open>data\<close> is the text that the UTF-8 decoder returns for the bytes
  received.
\<close>

definition feed :: "env \<Rightarrow> jsstring \<Rightarrow> Connection \<Rightarrow> Connection" where
  "feed E data c =
     (let c = c\<lparr> recv := recv c @ data \<rparr> in
      if length (recv c) \<ge> 100000 then
        destroy (Connection_error (Error ''Too much data buffered (%s).'') c)
      else if http_test (recv c) then redirect E c
      else
        let lines = split_lines [] (filter (\<lambda>x. x \<noteq> 0x0D) (recv c));
            c = c\<lparr> recv := last lines \<rparr>
        in feed_lines E (butlast lines) c)"

definition sendMethod :: "env \<Rightarrow> string \<Rightarrow> json list \<Rightarrow> Connection \<Rightarrow> Connection" where
  "sendMethod E method' params' c =
     send E (JObject [(ascii ''id'', JNull),
                      (ascii ''method'', JString (ascii method')),
                      (ascii ''params'', JArray params')]) c"

text \<open>
  Methods that may throw return what was thrown, if anything, next to the connection as
  it is at that moment: fields assigned before the throw stay assigned.
\<close>

definition sendDifficulty :: "env \<Rightarrow> number \<Rightarrow> Connection \<Rightarrow> error option \<times> Connection" where
  "sendDifficulty E d c =
     (if \<not> js_gt d (Fin 0) then (Some (AssertionError ''Difficulty must be at least 1.''), c)
      else (None, sendMethod E ''mining.set_difficulty'' [number_json d] c))"

definition setDifficulty :: "number \<Rightarrow> Connection \<Rightarrow> Connection" where
  "setDifficulty d c = c\<lparr> nextDifficulty := d \<rparr>"

definition notify :: "env \<Rightarrow> ('share, 'block) Job \<Rightarrow> Connection \<Rightarrow> error option \<times> Connection" where
  "notify E j c =
     (case Job_toJSON (hashLeaf E) j of
        Inl e \<Rightarrow> (Some e, c)
      | Inr arr \<Rightarrow> (None, sendMethod E ''mining.notify'' arr c))"

definition sendJob :: "env \<Rightarrow> int \<Rightarrow> ('share, 'block) Job \<Rightarrow> Connection \<Rightarrow> error option \<times> Connection" where
  "sendJob E now j c =
     (if nextDifficulty c \<noteq> Fin (- 1) then
        let c = c\<lparr> submissions := 0 \<rparr>;
            c = c\<lparr> lastRetarget := now \<rparr>
        in (case sendDifficulty E (nextDifficulty c) c of
              (Some e, c) \<Rightarrow> (Some e, c)
            | (None, c) \<Rightarrow>
                let c = c\<lparr> difficulty := nextDifficulty c \<rparr>;
                    c = c\<lparr> nextDifficulty := Fin (- 1) \<rparr>
                in notify E j c)
      else notify E j c)"

text \<open>
  \<open>retarget(max)\<close>; \<open>pm\<close> is \<open>SHARES_PER_MINUTE\<close> of stratum.js and \<open>now\<close> is what
  \<open>Date.now()\<close> returns.  \<open>x % 0\<close> is NaN, which is not \<open>0\<close>.  The target time and the
  elapsed time are integers of milliseconds (a quarter or four times one after the
  clamp), exact as doubles; the difficulty is computed in doubles.
\<close>

definition retarget :: "nat \<Rightarrow> int \<Rightarrow> number \<Rightarrow> Connection \<Rightarrow> (error + bool) \<times> Connection" where
  "retarget pm now cap c =
     (if \<not> js_gt (difficulty c) (Fin 0) then (Inl (AssertionError ''Assertion failed.''), c)
      else if \<not> lastRetarget c \<noteq> -1 then (Inl (AssertionError ''Assertion failed.''), c)
      else
        let c = c\<lparr> submissions := submissions c + 1 \<rparr> in
        if pm \<noteq> 0 \<and> submissions c mod pm = 0 then
          let target = (real (submissions c) / real pm) * 60000;
              actual = real_of_int (now - lastRetarget c);
              d = fdiv (Fin 0x100000000) (difficulty c);
              cap = (if js_gt cap (Fin 4294967295) then Fin 4294967295 else cap)
          in if \<bar>target - actual\<bar> \<le> 5000 then (Inr False, c)
             else
               let actual = (if actual < target / 4 then target / 4 else actual);
                   actual = (if actual > target * 4 then target * 4 else actual);
                   d = fmul d (Fin actual);
                   d = fdiv d (Fin target);
                   d = fdiv (Fin 0x100000000) d;
                   d = Fin (real (number_toUint32 d));
                   d = Math_min cap d;
                   d = Math_max (Fin 1) d
               in (Inr True, setDifficulty d c)
        else (Inr False, c))"

text \<open>
  To state what \<open>feed\<close> does with lines: the lines of a text that end with a line
  feed, cut at every line feed (\<open>acc\<close> is the line being read), and the event that
  decoding a line gives.
\<close>

fun complete_lines :: "jsstring \<Rightarrow> jsstring \<Rightarrow> jsstring list" where
  "complete_lines acc [] = []"
| "complete_lines acc (c # cs) =
     (if c = 0x0A then acc # complete_lines [] cs else complete_lines (acc @ [c]) cs)"

definition line_event :: "env \<Rightarrow> jsstring \<Rightarrow> event" where
  "line_event E line =
     (case ClientPacket_fromRaw (JSON_parse E) line of
        Inl e \<Rightarrow> Emit_error e
      | Inr msg \<Rightarrow> Emit_packet msg)"

text \<open>The text that \<open>sendMethod\<close> hands to \<open>write\<close>.\<close>

definition method_text :: "env \<Rightarrow> string \<Rightarrow> json list \<Rightarrow> jsstring" where
  "method_text E m ps =
     JSON_stringify E (JObject [(ascii ''id'', JNull),
                                (ascii ''method'', JString (ascii m)),
                                (ascii ''params'', JArray ps)]) @ [0x0A]"

text \<open>
  Surroundings to run a connection in: a parser that knows one line, a serializer that
  keeps the method name only, and a socket that accepts every write.
\<close>

definition sample_parse :: "jsstring \<Rightarrow> json option" where
  "sample_parse s =
     (if s = ascii ''{\"id\":1,\"method\":\"mining.subscribe\",\"params\":[]}''
      then Some (JObject [(ascii ''id'', JNumber 1),
                          (ascii ''method'', JString (ascii ''mining.subscribe'')),
                          (ascii ''params'', JArray [])])
      else None)"

definition sample_stringify :: "json \<Rightarrow> jsstring" where
  "sample_stringify v =
     (case getProp v ''method'' of Some (JString m) \<Rightarrow> m | _ \<Rightarrow> [])"

definition sample_env :: env where
  "sample_env = \<lparr> JSON_parse = sample_parse, JSON_stringify = sample_stringify,
                   socket_write = (\<lambda>h t. True), hashLeaf = (\<lambda>b. b),
                   publicHost = ascii ''pool.example.org'', publicPort = 3008 \<rparr>"

section \<open>Properties of the submission decoder\<close>

lemma hexPattern_test_length: "hexPattern_test s \<Longrightarrow> length s = 1"
  by (cases s) (auto simp: hexPattern_test_def split: list.splits)

lemma isHex_False: "\<not> isHex v"
proof (cases v)
  case (JString s)
  show ?thesis
  proof
    assume "isHex v"
    with JString have "length s mod 2 = 0" and "hexPattern_test s"
      by (simp_all add: isHex_def)
    then show False
      using hexPattern_test_length [of s] by simp
  qed
qed (simp_all add: isHex_def)

text \<open>
  Claim C1.  A \<open>mining.submit\<close> whose five fields have the stated formats (a name of 1
  to 100 characters, a job id of 12 to 21, eight hexadecimal digits for nonce2 and for
  the time, hexadecimal digits for the nonce) should be parsed.  It is refused: \<open>isHex\<close>
  accepts no string, so the decoder stops at nonce2.
\<close>

theorem C1_valid_submit_rejected:
  "isUsername (JString (ascii ''alice''))
   \<and> isJob (JString (ascii ''job-00000001''))
   \<and> length (ascii ''0000abcd'') = NONCE_SIZE * 2 \<and> list_all hexClass (ascii ''0000abcd'')
   \<and> length (ascii ''5d9f1a2b'') = 8 \<and> list_all hexClass (ascii ''5d9f1a2b'')
   \<and> list_all hexClass (ascii ''deadbeef'')
   \<and> Submission_fromPacket
        \<lparr> ClientPacket.id = JNumber 4, method = ascii ''mining.submit'',
          params = [JString (ascii ''alice''), JString (ascii ''job-00000001''),
                    JString (ascii ''0000abcd''), JString (ascii ''5d9f1a2b''),
                    JString (ascii ''deadbeef'')] \<rparr>
       = Inl (AssertionError ''Nonce2 must be a string.'')"
  by (simp add: Submission_fromPacket_def isUsername_def isJob_def is_string_def NONCE_SIZE_def
      ascii_def isHex_def hexPattern_test_def hexClass_def)

text \<open>
  Claim C2.  \<open>isHex\<close> is false of every value, a string or not; so is \<open>isSID\<close>, and
  \<open>Submission.fromPacket\<close> fails with an assertion error on every packet.
\<close>

theorem C2_isHex_always_false:
  "isHex v = False \<and> isSID v = False \<and> (\<exists>m. Submission_fromPacket msg = Inl (AssertionError m))"
proof -
  have "isSID v = False"
    by (simp add: isSID_def isHex_False split: json.splits)
  moreover have "\<exists>m. Submission_fromPacket msg = Inl (AssertionError m)"
    by (simp add: Submission_fromPacket_def Let_def isHex_False)
  ultimately show ?thesis
    by (simp add: isHex_False)
qed

section \<open>Duplicate detection\<close>

lemma insert_all_Cons:
  "insert_all (call # calls) j =
     (fst (Job_insert (snd call) j) # fst (insert_all calls (snd (Job_insert (snd call) j))),
      snd (insert_all calls (snd (Job_insert (snd call) j))))"
  by (simp add: split_beta)

lemma Job_insert_fst: "fst (Job_insert h j) = (h \<notin> Job.submissions j)"
  by (simp add: Job_insert_def)

lemma Job_insert_submissions: "Job.submissions (snd (Job_insert h j)) = insert h (Job.submissions j)"
  by (auto simp: Job_insert_def)

lemma insert_all_length: "length (fst (insert_all calls j)) = length calls"
  by (induction calls arbitrary: j) (simp_all add: insert_all_Cons del: insert_all.simps(2))

lemma insert_all_submissions:
  "Job.submissions (snd (insert_all calls j)) = Job.submissions j \<union> snd ` set calls"
  by (induction calls arbitrary: j)
     (simp_all add: insert_all_Cons Job_insert_submissions del: insert_all.simps(2))

lemma insert_all_nth:
  "i < length calls \<Longrightarrow>
   fst (insert_all calls j) ! i = (snd (calls ! i) \<notin> Job.submissions j \<union> snd ` set (take i calls))"
proof (induction calls arbitrary: j i)
  case Nil
  then show ?case by simp
next
  case (Cons call calls)
  show ?case
  proof (cases i)
    case 0
    then show ?thesis
      by (simp add: insert_all_Cons Job_insert_fst del: insert_all.simps(2))
  next
    case (Suc k)
    with Cons.prems have k: "k < length calls" by simp
    show ?thesis
      using Cons.IH [OF k, of "snd (Job_insert (snd call) j)"] Suc
      by (simp add: insert_all_Cons Job_insert_submissions del: insert_all.simps(2))
  qed
qed

text \<open>
  Claim C3.  In a run of \<open>insert\<close> calls on a Job, whatever the connections they are
  made for, a call returns true exactly when its hash is neither in the set the Job
  started with nor the hash of an earlier call of the run.  At the end the set holds
  what it held and every hash of the run.  A call that returns true has added its hash;
  a call that returns false has changed nothing.
\<close>

theorem C3_insert_once:
  "(\<forall>i < length calls.
      fst (insert_all calls j) ! i
        = (snd (calls ! i) \<notin> Job.submissions j \<union> snd ` set (take i calls)))
   \<and> length (fst (insert_all calls j)) = length calls
   \<and> Job.submissions (snd (insert_all calls j)) = Job.submissions j \<union> snd ` set calls
   \<and> (fst (Job_insert h j) \<longrightarrow>
        h \<notin> Job.submissions j
        \<and> snd (Job_insert h j) = j\<lparr> Job.submissions := insert h (Job.submissions j) \<rparr>)
   \<and> (\<not> fst (Job_insert h j) \<longrightarrow> h \<in> Job.submissions j \<and> snd (Job_insert h j) = j)"
proof -
  have "fst (Job_insert h j) \<longrightarrow>
        h \<notin> Job.submissions j
        \<and> snd (Job_insert h j) = j\<lparr> Job.submissions := insert h (Job.submissions j) \<rparr>"
    by (simp add: Job_insert_def)
  moreover have "\<not> fst (Job_insert h j) \<longrightarrow> h \<in> Job.submissions j \<and> snd (Job_insert h j) = j"
    by (simp add: Job_insert_def)
  ultimately show ?thesis
    using insert_all_nth [of _ calls j] insert_all_length [of calls j]
      insert_all_submissions [of calls j]
    by blast
qed

theorem C3_insert_once_witness:
  "fst (insert_all [(1, [0xAA]), (2, [0xBB]), (2, [0xAA]), (1, [0xAA])] (new_Job (ascii ''job-00000001'') :: (unit, unit) Job))
     = [True, True, False, False]
   \<and> fst (Job_insert [0xAA] (new_Job (ascii ''job-00000001'') :: (unit, unit) Job))
   \<and> \<not> fst (Job_insert [0xAA] (snd (Job_insert [0xAA] (new_Job (ascii ''job-00000001'') :: (unit, unit) Job))))"
  using C3_insert_once [of "[(1, [0xAA]), (2, [0xBB]), (2, [0xAA]), (1, [0xAA])]"
      "new_Job (ascii ''job-00000001'') :: (unit, unit) Job" "[0xAA]"]
  by (simp add: new_Job_def Job_insert_def)

section \<open>Commit\<close>

lemma Job_commit_committed:
  "committed j \<Longrightarrow> Job_commit s j = (Inl (AssertionError ''Already committed.''), j)"
  by (simp add: Job_commit_def)

lemma Job_commit_marks: "committed (snd (Job_commit s j))"
  by (simp add: Job_commit_def Let_def split: option.splits)

lemma Job_commit_first:
  "\<not> committed j \<Longrightarrow>
   fst (Job_commit s j) = (case attempt j of None \<Rightarrow> Inl TypeError | Some a \<Rightarrow> commit a s)"
  by (simp add: Job_commit_def Let_def split: option.splits)

lemma commit_all_Cons:
  "commit_all (s # ss) j =
     (fst (Job_commit s j) # fst (commit_all ss (snd (Job_commit s j))),
      snd (commit_all ss (snd (Job_commit s j))))"
  by (simp add: split_beta)

lemma commit_all_committed:
  "committed j \<Longrightarrow>
   commit_all ss j = (replicate (length ss) (Inl (AssertionError ''Already committed.'')), j)"
  by (induction ss) (simp_all add: commit_all_Cons Job_commit_committed del: commit_all.simps(2))

lemma commit_all_later:
  assumes "0 < i" and "i < length ss"
  shows "fst (commit_all ss j) ! i = Inl (AssertionError ''Already committed.'')"
proof (cases ss)
  case Nil
  with assms show ?thesis by simp
next
  case (Cons s rest)
  from assms obtain k where k: "i = Suc k" by (cases i) simp_all
  with assms Cons have "k < length rest" by simp
  then show ?thesis
    using commit_all_committed [OF Job_commit_marks, of rest s j] Cons k
    by (simp add: commit_all_Cons del: commit_all.simps(2))
qed

text \<open>
  Claim C7.  A call of \<open>commit\<close> on a Job not yet committed sets the flag and returns
  what the template's \<open>commit\<close> returns (or throws).  A call on a committed Job throws
  "Already committed." and changes nothing.  So in a run of calls on one Job every call
  but the first throws that error.
\<close>

theorem C7_commit_once:
  "(\<not> committed j \<longrightarrow>
      committed (snd (Job_commit s j))
      \<and> fst (Job_commit s j) = (case attempt j of None \<Rightarrow> Inl TypeError | Some a \<Rightarrow> commit a s))
   \<and> (committed j \<longrightarrow> Job_commit s j = (Inl (AssertionError ''Already committed.''), j))
   \<and> (\<forall>i. 0 < i \<and> i < length ss \<longrightarrow>
         fst (commit_all ss j) ! i = Inl (AssertionError ''Already committed.''))"
  using Job_commit_committed [of j s] Job_commit_marks [of s j] Job_commit_first [of j s]
    commit_all_later [of _ ss j]
  by blast

theorem C7_commit_once_witness:
  "fst (commit_all [5, 6, 7] (Job_fromTemplate (ascii ''job-00000001'') sample_attempt))
     = [Inr 6, Inl (AssertionError ''Already committed.''), Inl (AssertionError ''Already committed.'')]
   \<and> \<not> committed (Job_fromTemplate (ascii ''job-00000001'') sample_attempt)
   \<and> committed (snd (Job_commit 5 (Job_fromTemplate (ascii ''job-00000001'') sample_attempt)))"
  using C7_commit_once [of "Job_fromTemplate (ascii ''job-00000001'') sample_attempt" 5 "[5, 6, 7]"]
  by (simp add: Job_fromTemplate_def new_Job_def sample_attempt_def Job_commit_def)

section \<open>The notify payload\<close>

lemma toString16_length_pos: "0 < length (toString16 n)"
  by (subst toString16.simps) simp

lemma toString16_length_le: "n < 16 ^ k \<Longrightarrow> 0 < k \<Longrightarrow> length (toString16 n) \<le> k"
proof (induction k arbitrary: n)
  case 0
  then show ?case by simp
next
  case (Suc k)
  show ?case
  proof (cases "n < 16")
    case True
    then show ?thesis by (subst toString16.simps) simp
  next
    case False
    with Suc.prems have "0 < k" by (cases k) simp_all
    moreover from Suc.prems have "n div 16 < 16 ^ k"
      by (simp add: less_mult_imp_div_less mult.commute)
    ultimately have "length (toString16 (n div 16)) \<le> k" by (rule Suc.IH [rotated])
    with False show ?thesis by (subst toString16.simps) simp
  qed
qed

lemma toUint32_less: "toUint32 x < 2 ^ 32"
proof -
  have "(if x \<ge> 0 then \<lfloor>x\<rfloor> else - \<lfloor>- x\<rfloor>) mod 2 ^ 32 < (2 ^ 32 :: int)"
    by simp
  then show ?thesis
    unfolding toUint32_def by (simp add: nat_less_iff)
qed

lemma hex32_returns:
  assumes "real (toUint32 x) = x"
  shows "\<exists>s. hex32 x = Inr s \<and> length s = 8"
proof -
  let ?s = "toString16 (toUint32 x)"
  have "toUint32 x < 16 ^ 8" using toUint32_less [of x] by simp
  then have "length ?s \<le> 8" by (rule toString16_length_le) simp
  moreover have "0 < length ?s" by (rule toString16_length_pos)
  ultimately consider "length ?s = 1" | "length ?s = 2" | "length ?s = 3" | "length ?s = 4"
    | "length ?s = 5" | "length ?s = 6" | "length ?s = 7" | "length ?s = 8"
    by linarith
  then show ?thesis
    using assms by cases (simp_all add: hex32_def Let_def ascii_def)
qed

lemma hex32_Inr_iff: "(\<exists>s. hex32 x = Inr s) = (real (toUint32 x) = x)"
  using hex32_returns [of x] by (auto simp: hex32_def)

lemma Job_toJSON_returns:
  assumes "attempt j = Some a"
    and "real (toUint32 (version a)) = version a"
    and "real (toUint32 (bits a)) = bits a"
    and "real (toUint32 (time a)) = time a"
  shows "\<exists>arr. Job_toJSON h j = Inr arr"
  using assms hex32_returns [of "version a"] hex32_returns [of "bits a"] hex32_returns [of "time a"]
  by (auto simp: Job_toJSON_def)

text \<open>
  Claim C10.  An array that \<open>toJSON\<close> returns has 13 elements and ends with the
  constant \<open>false\<close>.  It returns one exactly when the Job has a template whose
  version, bits and time are unsigned 32-bit integers (else \<open>hex32\<close> throws).
\<close>

theorem C10_toJSON_shape:
  "(Job_toJSON h j = Inr arr \<longrightarrow> length arr = 13 \<and> last arr = JBool False)
   \<and> ((\<exists>arr. Job_toJSON h j = Inr arr)
        = (\<exists>a. attempt j = Some a
               \<and> real (toUint32 (version a)) = version a
               \<and> real (toUint32 (bits a)) = bits a
               \<and> real (toUint32 (time a)) = time a))"
proof -
  have shape: "Job_toJSON h j = Inr arr \<longrightarrow> length arr = 13 \<and> last arr = JBool False"
    by (auto simp: Job_toJSON_def Let_def split: option.splits sum.splits)
  have "\<exists>a. attempt j = Some a
               \<and> real (toUint32 (version a)) = version a
               \<and> real (toUint32 (bits a)) = bits a
               \<and> real (toUint32 (time a)) = time a"
    if "Job_toJSON h j = Inr arr'" for arr'
  proof -
    from that obtain a where a: "attempt j = Some a"
      by (auto simp: Job_toJSON_def split: option.splits)
    with that have "\<exists>s. hex32 (version a) = Inr s" "\<exists>s. hex32 (bits a) = Inr s"
      "\<exists>s. hex32 (time a) = Inr s"
      by (auto simp: Job_toJSON_def Let_def split: sum.splits)
    with a show ?thesis by (simp add: hex32_Inr_iff)
  qed
  with shape show ?thesis
    using Job_toJSON_returns [of j _ h] by blast
qed

theorem C10_toJSON_shape_witness:
  "Job_toJSON (\<lambda>b. b) (Job_fromTemplate (ascii ''job-00000001'') sample_attempt)
     = Inr [JString (ascii ''job-00000001''), JString (ascii ''001f''), JString (ascii ''01''),
            JString (ascii ''02''), JArray [JString (ascii ''ab'')], JArray [],
            JString (ascii ''03''), JString (ascii ''04''), JString (ascii ''05''),
            JString (ascii ''00000000''), JString (ascii ''1d00ffff''), JString (ascii ''5d944c80''),
            JBool False]
   \<and> length (projr (Job_toJSON (\<lambda>b. b) (Job_fromTemplate (ascii ''job-00000001'') sample_attempt))) = 13
   \<and> last (projr (Job_toJSON (\<lambda>b. b) (Job_fromTemplate (ascii ''job-00000001'') sample_attempt))) = JBool False"
proof -
  have run: "Job_toJSON (\<lambda>b. b) (Job_fromTemplate (ascii ''job-00000001'') sample_attempt)
     = Inr [JString (ascii ''job-00000001''), JString (ascii ''001f''), JString (ascii ''01''),
            JString (ascii ''02''), JArray [JString (ascii ''ab'')], JArray [],
            JString (ascii ''03''), JString (ascii ''04''), JString (ascii ''05''),
            JString (ascii ''00000000''), JString (ascii ''1d00ffff''), JString (ascii ''5d944c80''),
            JBool False]"
    by (simp add: Job_toJSON_def Job_fromTemplate_def new_Job_def sample_attempt_def hex32_def
        toUint32_def toString16.simps hexDigit_def toHex_def ascii_def List.map_filter_def)
  from C10_toJSON_shape [of "\<lambda>b. b" "Job_fromTemplate (ascii ''job-00000001'') sample_attempt"] run
  show ?thesis by simp
qed

section \<open>Retargeting\<close>

lemmas fl_eval = fl_def fl_at_def fl_pack_def ilog2_def ilog2_up.simps ilog2_down.simps rne_def
  Let_def ulp_def

lemma retarget_staged:
  assumes "fst (retarget pm now cap c) = Inr True"
  shows "\<exists>u. nextDifficulty (snd (retarget pm now cap c))
            = Math_max (Fin 1)
                (Math_min (if js_gt cap (Fin 4294967295) then Fin 4294967295 else cap)
                   (Fin (real (number_toUint32 u))))"
proof -
  have pos: "js_gt (difficulty c) (Fin 0)"
    using assms by (simp add: retarget_def split: if_splits)
  have last: "lastRetarget c \<noteq> -1"
    using assms pos by (simp add: retarget_def split: if_splits)
  have point: "pm \<noteq> 0 \<and> (submissions c + 1) mod pm = 0"
    using assms pos last by (simp add: retarget_def Let_def split: if_splits)
  have band: "\<not> \<bar>real (submissions c + 1) / real pm * 60000 - real_of_int (now - lastRetarget c)\<bar> \<le> 5000"
  proof
    assume "\<bar>real (submissions c + 1) / real pm * 60000 - real_of_int (now - lastRetarget c)\<bar> \<le> 5000"
    with pos last point have "fst (retarget pm now cap c) = Inr False"
      by (simp add: retarget_def Let_def)
    with assms show False by simp
  qed
  show ?thesis
    unfolding retarget_def Let_def setDifficulty_def
    using pos last point band
    by simp blast
qed

lemma number_toUint32_le: "real (number_toUint32 u) \<le> 4294967295"
proof -
  have "number_toUint32 u < 2 ^ 32"
    using toUint32_less by (cases u) (simp_all add: number_toUint32_def)
  then have "number_toUint32 u \<le> 4294967295" by simp
  then have "real (number_toUint32 u) \<le> real 4294967295"
    by (rule iffD2 [OF of_nat_le_iff])
  then show ?thesis by simp
qed

lemma staged_bounds:
  fixes v :: real
  assumes "0 \<le> v" and "v \<le> 4294967295"
    and "d = Math_max (Fin 1)
               (Math_min (if js_gt cap (Fin 4294967295) then Fin 4294967295 else cap) (Fin v))"
  shows "(cap = NaN \<longrightarrow> d = NaN)
     \<and> (cap = NInf \<longrightarrow> d = Fin 1)
     \<and> (cap = PInf \<longrightarrow> (\<exists>x. d = Fin x \<and> 1 \<le> x \<and> x \<le> 4294967295))
     \<and> (\<forall>k. cap = Fin k \<longrightarrow>
           (\<exists>x. d = Fin x \<and> 1 \<le> x \<and> x \<le> max 1 (min k 4294967295)
                \<and> (1 \<le> k \<longrightarrow> x \<le> min k 4294967295)))"
  using assms by (cases cap) (auto simp: Math_max_def Math_min_def)

text \<open>
  Claim C4, as stated, fails when the cap is below 1: with a cap of 0 the staged
  difficulty is 1, above the cap.
\<close>

theorem C4_counterexample:
  "fst (retarget 8 11000 (Fin 0)
          (new_Connection\<lparr> difficulty := Fin 16, lastRetarget := 1000, submissions := 7 \<rparr>))
     = Inr True
   \<and> nextDifficulty (snd (retarget 8 11000 (Fin 0)
        (new_Connection\<lparr> difficulty := Fin 16, lastRetarget := 1000, submissions := 7 \<rparr>))) = Fin 1
   \<and> js_gt (nextDifficulty (snd (retarget 8 11000 (Fin 0)
        (new_Connection\<lparr> difficulty := Fin 16, lastRetarget := 1000, submissions := 7 \<rparr>))))
         (Math_min (Fin 0) (Fin 4294967295))"
proof -
  have d1: "fdiv (Fin 4294967296) (Fin 16) = Fin 268435456"
    by (simp add: fl_eval)
  have d2: "fmul (Fin 268435456) (Fin 15000) = Fin 4026531840000"
    by (simp add: fl_eval)
  have d3: "fdiv (Fin 4026531840000) (Fin 60000) = Fin 67108864"
    by (simp add: fl_eval)
  have d4: "fdiv (Fin 4294967296) (Fin 67108864) = Fin 64"
    by (simp add: fl_eval)
  have run: "retarget 8 11000 (Fin 0)
      (new_Connection\<lparr> difficulty := Fin 16, lastRetarget := 1000, submissions := 7 \<rparr>)
    = (Inr True, new_Connection\<lparr> difficulty := Fin 16, lastRetarget := 1000, submissions := 8,
         nextDifficulty := Fin 1 \<rparr>)"
    by (simp add: retarget_def new_Connection_def setDifficulty_def Let_def d1 d2 d3 d4
        number_toUint32_def toUint32_def Math_min_def Math_max_def del: fdiv.simps fmul.simps)
  show ?thesis
    unfolding run by (simp add: new_Connection_def Math_min_def)
qed

text \<open>
  Claim C4, amended.  When \<open>retarget\<close> returns true and the cap is a number, the
  difficulty it stages is a finite number, at least 1 and at most the larger of 1 and
  the cap (the argument, cut at \<open>2^32 - 1\<close>); so it is at most the cap whenever the cap
  is at least 1.  When the cap is NaN, what is staged is NaN.  This holds for every
  clock value, hence for every elapsed time, and whatever the rounding of the
  arithmetic before \<open>>>> 0\<close> gives.
\<close>

theorem C4_retarget_bounds:
  assumes "fst (retarget pm now cap c) = Inr True"
  shows "(cap = NaN \<longrightarrow> nextDifficulty (snd (retarget pm now cap c)) = NaN)
     \<and> (cap = NInf \<longrightarrow> nextDifficulty (snd (retarget pm now cap c)) = Fin 1)
     \<and> (cap = PInf \<longrightarrow>
          (\<exists>x. nextDifficulty (snd (retarget pm now cap c)) = Fin x \<and> 1 \<le> x \<and> x \<le> 4294967295))
     \<and> (\<forall>k. cap = Fin k \<longrightarrow>
          (\<exists>x. nextDifficulty (snd (retarget pm now cap c)) = Fin x
               \<and> 1 \<le> x \<and> x \<le> max 1 (min k 4294967295)
               \<and> (1 \<le> k \<longrightarrow> x \<le> min k 4294967295)))"
proof -
  from retarget_staged [OF assms] obtain u where
    d: "nextDifficulty (snd (retarget pm now cap c))
          = Math_max (Fin 1)
              (Math_min (if js_gt cap (Fin 4294967295) then Fin 4294967295 else cap)
                 (Fin (real (number_toUint32 u))))"
    by blast
  have "0 \<le> real (number_toUint32 u)" by simp
  then show ?thesis
    using number_toUint32_le [of u] d by (rule staged_bounds)
qed

theorem C4_retarget_bounds_witness:
  "fst (retarget 8 21000 (Fin 100)
          (new_Connection\<lparr> difficulty := Fin 13, lastRetarget := 1000, submissions := 7 \<rparr>))
     = Inr True
   \<and> nextDifficulty (snd (retarget 8 21000 (Fin 100)
        (new_Connection\<lparr> difficulty := Fin 13, lastRetarget := 1000, submissions := 7 \<rparr>))) = Fin 38
   \<and> (1 :: real) \<le> 38 \<and> (38 :: real) \<le> min 100 4294967295"
proof -
  have d1: "fdiv (Fin 4294967296) (Fin 13) = Fin (1385722962267845 / 4194304)"
    by (simp add: fl_eval)
  have d2: "fmul (Fin (1385722962267845 / 4194304)) (Fin 20000) = Fin (3383112700849231 / 512)"
    by (simp add: fl_eval)
  have d3: "fdiv (Fin (3383112700849231 / 512)) (Fin 60000) = Fin (7390522465428507 / 67108864)"
    by (simp add: fl_eval)
  have d4: "fdiv (Fin 4294967296) (Fin (7390522465428507 / 67108864))
      = Fin (5488762045857791 / 140737488355328)"
    by (simp add: fl_eval)
  have u: "number_toUint32 (Fin (5488762045857791 / 140737488355328)) = 38"
    by (simp add: number_toUint32_def toUint32_def)
  have run: "retarget 8 21000 (Fin 100)
      (new_Connection\<lparr> difficulty := Fin 13, lastRetarget := 1000, submissions := 7 \<rparr>)
    = (Inr True, new_Connection\<lparr> difficulty := Fin 13, lastRetarget := 1000, submissions := 8,
         nextDifficulty := Fin 38 \<rparr>)"
    by (simp add: retarget_def new_Connection_def setDifficulty_def Let_def d1 d2 d3 d4 u
        Math_min_def Math_max_def del: fdiv.simps fmul.simps)
  have staged: "fst (retarget 8 21000 (Fin 100)
      (new_Connection\<lparr> difficulty := Fin 13, lastRetarget := 1000, submissions := 7 \<rparr>)) = Inr True"
    unfolding run by simp
  from C4_retarget_bounds [OF staged] show ?thesis
    unfolding run by (simp add: new_Connection_def)
qed

lemma band_unclamped:
  fixes t a :: real
  assumes "60000 \<le> t" and "\<bar>t - max (t / 4) (min (t * 4) a)\<bar> \<le> 5000"
  shows "\<bar>t - a\<bar> \<le> 5000"
  using assms by (simp add: max_def min_def abs_if split: if_splits)

lemma target_at_least:
  assumes "0 < pm" and "n mod pm = 0" and "0 < n"
  shows "60000 \<le> real n / real pm * 60000"
proof -
  from assms(2) have "pm dvd n" by (simp add: dvd_eq_mod_eq_0)
  then have "pm \<le> n" using assms(3) by (rule dvd_imp_le)
  with assms(1) have "1 \<le> real n / real pm"
    by (simp add: le_divide_eq)
  from mult_right_mono [OF this, of 60000] show ?thesis by simp
qed

text \<open>
  Claim C5.  At a decision point (the asserts hold and the count after the increment is
  a multiple of \<open>pm\<close>), if the target time and the elapsed time clamped to a quarter and
  four times the target differ by at most 5000 ms, then \<open>retarget\<close> returns false and
  changes nothing but the count.
\<close>

theorem C5_hysteresis:
  assumes "js_gt (difficulty c) (Fin 0)" and "lastRetarget c \<noteq> -1"
    and "0 < pm" and "(submissions c + 1) mod pm = 0"
    and "\<bar>real (submissions c + 1) / real pm * 60000
          - max (real (submissions c + 1) / real pm * 60000 / 4)
              (min (real (submissions c + 1) / real pm * 60000 * 4)
                 (real_of_int (now - lastRetarget c)))\<bar> \<le> 5000"
  shows "retarget pm now cap c = (Inr False, c\<lparr> submissions := submissions c + 1 \<rparr>)"
proof -
  define t where "t = real (submissions c + 1) / real pm * 60000"
  define a where "a = real_of_int (now - lastRetarget c)"
  have "60000 \<le> t"
    unfolding t_def using assms(3,4) by (rule target_at_least) simp
  moreover have "\<bar>t - max (t / 4) (min (t * 4) a)\<bar> \<le> 5000"
    unfolding t_def a_def by (rule assms(5))
  ultimately have "\<bar>t - a\<bar> \<le> 5000" by (rule band_unclamped)
  then have "\<bar>real (submissions c + 1) / real pm * 60000 - real_of_int (now - lastRetarget c)\<bar> \<le> 5000"
    unfolding t_def a_def .
  with assms(1-4) show ?thesis
    by (simp add: retarget_def Let_def)
qed

theorem C5_hysteresis_witness:
  "retarget 8 59000 (Fin 100)
     (new_Connection\<lparr> difficulty := Fin 16, lastRetarget := 1000, submissions := 7 \<rparr>)
     = (Inr False, new_Connection\<lparr> difficulty := Fin 16, lastRetarget := 1000, submissions := 8 \<rparr>)"
  using C5_hysteresis [of "new_Connection\<lparr> difficulty := Fin 16, lastRetarget := 1000, submissions := 7 \<rparr>"
      8 59000 "Fin 100"]
  by (simp add: new_Connection_def)

section \<open>Sending a job\<close>

lemma sendMethod_write: "sendMethod E m ps c = Connection_write E (method_text E m ps) c"
  by (simp add: sendMethod_def send_def method_text_def Connection_write_def)

lemma write_destroyed: "destroyed c \<Longrightarrow> Connection_write E t c = c"
  by (simp add: Connection_write_def)

lemma write_fields:
  "recv (Connection_write E t c) = recv c"
  "sid (Connection_write E t c) = sid c"
  "difficulty (Connection_write E t c) = difficulty c"
  "nextDifficulty (Connection_write E t c) = nextDifficulty c"
  "lastRetarget (Connection_write E t c) = lastRetarget c"
  "submissions (Connection_write E t c) = submissions c"
  by (simp_all add: Connection_write_def destroy_def Let_def)

lemma write_events:
  "\<not> destroyed c \<Longrightarrow>
   events (Connection_write E t c)
     = events c @ Socket_write t
         # (if destroyed (Connection_write E t c) then [Locker_destroy, Socket_destroy, Emit_close] else [])"
  by (simp add: Connection_write_def destroy_def Let_def)

lemma write_accepted:
  "\<not> destroyed c \<Longrightarrow> socket_write E (events c) t \<Longrightarrow>
   Connection_write E t c = c\<lparr> events := events c @ [Socket_write t] \<rparr>"
  by (simp add: Connection_write_def)

lemma sendJob_pending:
  assumes "Job_toJSON (hashLeaf E) j = Inr arr"
    and "nextDifficulty c \<noteq> Fin (- 1)" and "js_gt (nextDifficulty c) (Fin 0)"
  shows "sendJob E now j c =
     (None, Connection_write E (method_text E ''mining.notify'' arr)
        ((Connection_write E (method_text E ''mining.set_difficulty'' [number_json (nextDifficulty c)])
            (c\<lparr> submissions := 0, lastRetarget := now \<rparr>))
         \<lparr> difficulty := nextDifficulty c, nextDifficulty := Fin (- 1) \<rparr>))"
  using assms
  by (simp add: sendJob_def sendDifficulty_def notify_def sendMethod_write write_fields Let_def)

lemma sendJob_no_pending:
  assumes "Job_toJSON (hashLeaf E) j = Inr arr" and "nextDifficulty c = Fin (- 1)"
  shows "sendJob E now j c = (None, Connection_write E (method_text E ''mining.notify'' arr) c)"
  using assms by (simp add: sendJob_def notify_def sendMethod_write)


lemma write_destroyed_iff:
  "\<not> destroyed c \<Longrightarrow>
   destroyed (Connection_write E t c)
     = (\<not> socket_write E (events c) t \<and> drainSize c + byteLength t > 5 * 2 ^ 20)"
  by (simp add: Connection_write_def destroy_def Let_def)

text \<open>
  Claim C6, amended.  On a connection that is not destroyed, with a Job that serializes:
  when a pending difficulty is staged and positive, \<open>sendJob\<close> sets the count to 0 and
  the clock to now, writes \<open>mining.set_difficulty\<close> with the pending value, makes that
  value the difficulty and clears the pending slot, and then writes \<open>mining.notify\<close>,
  unless the first write met back-pressure that took the unacknowledged bytes over
  5 MiB: then the connection is destroyed and nothing more is written.  When nothing is
  pending it writes \<open>mining.notify\<close> only and leaves the four fields as they were.
\<close>

theorem C6_sendJob:
  assumes "Job_toJSON (hashLeaf E) j = Inr arr" and "\<not> destroyed c"
  shows
    "(nextDifficulty c \<noteq> Fin (- 1) \<and> js_gt (nextDifficulty c) (Fin 0) \<longrightarrow>
        fst (sendJob E now j c) = None
        \<and> submissions (snd (sendJob E now j c)) = 0
        \<and> lastRetarget (snd (sendJob E now j c)) = now
        \<and> difficulty (snd (sendJob E now j c)) = nextDifficulty c
        \<and> nextDifficulty (snd (sendJob E now j c)) = Fin (- 1)
        \<and> events (snd (sendJob E now j c))
            = events c
              @ Socket_write (method_text E ''mining.set_difficulty'' [number_json (nextDifficulty c)])
              # (if \<not> socket_write E (events c)
                        (method_text E ''mining.set_difficulty'' [number_json (nextDifficulty c)])
                    \<and> drainSize c
                        + byteLength (method_text E ''mining.set_difficulty'' [number_json (nextDifficulty c)])
                      > 5 * 2 ^ 20
                 then [Locker_destroy, Socket_destroy, Emit_close]
                 else Socket_write (method_text E ''mining.notify'' arr)
                      # (if destroyed (snd (sendJob E now j c))
                         then [Locker_destroy, Socket_destroy, Emit_close] else [])))
     \<and> (nextDifficulty c = Fin (- 1) \<longrightarrow>
        fst (sendJob E now j c) = None
        \<and> submissions (snd (sendJob E now j c)) = submissions c
        \<and> lastRetarget (snd (sendJob E now j c)) = lastRetarget c
        \<and> difficulty (snd (sendJob E now j c)) = difficulty c
        \<and> nextDifficulty (snd (sendJob E now j c)) = Fin (- 1)
        \<and> events (snd (sendJob E now j c))
            = events c
              @ Socket_write (method_text E ''mining.notify'' arr)
              # (if destroyed (snd (sendJob E now j c))
                 then [Locker_destroy, Socket_destroy, Emit_close] else []))"
proof (intro conjI impI)
  assume none: "nextDifficulty c = Fin (- 1)"
  show "fst (sendJob E now j c) = None"
    and "submissions (snd (sendJob E now j c)) = submissions c"
    and "lastRetarget (snd (sendJob E now j c)) = lastRetarget c"
    and "difficulty (snd (sendJob E now j c)) = difficulty c"
    and "nextDifficulty (snd (sendJob E now j c)) = Fin (- 1)"
    and "events (snd (sendJob E now j c))
            = events c
              @ Socket_write (method_text E ''mining.notify'' arr)
              # (if destroyed (snd (sendJob E now j c))
                 then [Locker_destroy, Socket_destroy, Emit_close] else [])"
    using none assms(2)
    by (simp_all add: sendJob_no_pending [OF assms(1) none] write_fields write_events)
next
  assume pending: "nextDifficulty c \<noteq> Fin (- 1) \<and> js_gt (nextDifficulty c) (Fin 0)"
  let ?t1 = "method_text E ''mining.set_difficulty'' [number_json (nextDifficulty c)]"
  let ?c0 = "c\<lparr> submissions := 0, lastRetarget := now \<rparr>"
  let ?c1 = "Connection_write E ?t1 ?c0"
  let ?c2 = "?c1\<lparr> difficulty := nextDifficulty c, nextDifficulty := Fin (- 1) \<rparr>"
  let ?t2 = "method_text E ''mining.notify'' arr"
  have run: "sendJob E now j c = (None, Connection_write E ?t2 ?c2)"
    using assms(1) pending by (simp add: sendJob_pending)
  have live0: "\<not> destroyed ?c0" using assms(2) by simp
  have ev1: "events ?c1 = events c @ Socket_write ?t1
               # (if destroyed ?c1 then [Locker_destroy, Socket_destroy, Emit_close] else [])"
    using write_events [OF live0, of E ?t1] by simp
  have d1: "destroyed ?c1
      = (\<not> socket_write E (events c) ?t1 \<and> drainSize c + byteLength ?t1 > 5 * 2 ^ 20)"
    using write_destroyed_iff [OF live0, of E ?t1] by simp
  show "fst (sendJob E now j c) = None"
    and "submissions (snd (sendJob E now j c)) = 0"
    and "lastRetarget (snd (sendJob E now j c)) = now"
    and "difficulty (snd (sendJob E now j c)) = nextDifficulty c"
    and "nextDifficulty (snd (sendJob E now j c)) = Fin (- 1)"
    by (simp_all add: run write_fields)
  show "events (snd (sendJob E now j c))
            = events c
              @ Socket_write ?t1
              # (if \<not> socket_write E (events c) ?t1 \<and> drainSize c + byteLength ?t1 > 5 * 2 ^ 20
                 then [Locker_destroy, Socket_destroy, Emit_close]
                 else Socket_write ?t2
                      # (if destroyed (snd (sendJob E now j c))
                         then [Locker_destroy, Socket_destroy, Emit_close] else []))"
  proof (cases "destroyed ?c1")
    case True
    then have "Connection_write E ?t2 ?c2 = ?c2"
      by (simp add: write_destroyed)
    with True ev1 d1 show ?thesis
      by (simp add: run)
  next
    case False
    then have "\<not> destroyed ?c2" by simp
    from write_events [OF this, of E ?t2] False ev1 d1 show ?thesis
      by (simp add: run)
  qed
qed

lemma sample_job_toJSON:
  "\<exists>arr. Job_toJSON h (Job_fromTemplate i sample_attempt) = Inr arr"
proof (rule Job_toJSON_returns)
  show "attempt (Job_fromTemplate i sample_attempt) = Some sample_attempt"
    by (simp add: Job_fromTemplate_def new_Job_def)
  show "real (toUint32 (version sample_attempt)) = version sample_attempt"
    by (simp add: sample_attempt_def toUint32_def)
  show "real (toUint32 (bits sample_attempt)) = bits sample_attempt"
    by (simp add: sample_attempt_def toUint32_def)
  show "real (toUint32 (time sample_attempt)) = time sample_attempt"
    by (simp add: sample_attempt_def toUint32_def)
qed

lemma sample_method_text:
  "JSON_stringify E = sample_stringify \<Longrightarrow> method_text E m ps = ascii m @ [0x0A]"
  by (simp add: method_text_def sample_stringify_def getProp_def ascii_def)

theorem C6_sendJob_witness:
  "events (snd (sendJob sample_env 2000 (Job_fromTemplate (ascii ''job-00000001'') sample_attempt)
       (new_Connection\<lparr> difficulty := Fin 16, nextDifficulty := Fin 32, lastRetarget := 1000, submissions := 3 \<rparr>)))
     = [Socket_write (ascii ''mining.set_difficulty'' @ [0x0A]), Socket_write (ascii ''mining.notify'' @ [0x0A])]
   \<and> difficulty (snd (sendJob sample_env 2000 (Job_fromTemplate (ascii ''job-00000001'') sample_attempt)
       (new_Connection\<lparr> difficulty := Fin 16, nextDifficulty := Fin 32, lastRetarget := 1000, submissions := 3 \<rparr>)))
     = Fin 32
   \<and> events (snd (sendJob sample_env 2000 (Job_fromTemplate (ascii ''job-00000001'') sample_attempt)
       (new_Connection\<lparr> difficulty := Fin 16, lastRetarget := 1000, submissions := 3 \<rparr>)))
     = [Socket_write (ascii ''mining.notify'' @ [0x0A])]"
proof -
  let ?j = "Job_fromTemplate (ascii ''job-00000001'') sample_attempt :: (nat, nat) Job"
  let ?c = "new_Connection\<lparr> difficulty := Fin 16, nextDifficulty := Fin 32, lastRetarget := 1000, submissions := 3 \<rparr>"
  let ?c' = "new_Connection\<lparr> difficulty := Fin 16, lastRetarget := 1000, submissions := 3 \<rparr>"
  obtain arr where arr: "Job_toJSON (hashLeaf sample_env) ?j = Inr arr"
    using sample_job_toJSON by blast
  have mtext: "method_text sample_env m ps = ascii m @ [0x0A]" for m ps
    by (rule sample_method_text) (simp add: sample_env_def)
  have live: "\<not> destroyed ?c" "\<not> destroyed ?c'"
    by (simp_all add: new_Connection_def)
  have accepts: "socket_write sample_env h t" for h t
    by (simp add: sample_env_def)
  have run: "sendJob sample_env 2000 ?j ?c
      = (None, new_Connection\<lparr> difficulty := Fin 32, nextDifficulty := Fin (- 1), lastRetarget := 2000,
           submissions := 0,
           events := [Socket_write (ascii ''mining.set_difficulty'' @ [0x0A]),
                      Socket_write (ascii ''mining.notify'' @ [0x0A])] \<rparr>)"
    by (simp add: sendJob_pending [OF arr] write_accepted accepts mtext new_Connection_def)
  have run': "sendJob sample_env 2000 ?j ?c'
      = (None, new_Connection\<lparr> difficulty := Fin 16, lastRetarget := 1000, submissions := 3,
           events := [Socket_write (ascii ''mining.notify'' @ [0x0A])] \<rparr>)"
    by (simp add: sendJob_no_pending [OF arr] write_accepted accepts mtext new_Connection_def)
  from C6_sendJob [OF arr live(1), of 2000] C6_sendJob [OF arr live(2), of 2000]
  show ?thesis
    unfolding run run' by (simp add: new_Connection_def)
qed

text \<open>
  Claim C6, as stated, fails under back-pressure: here the socket refuses the write of
  the difficulty message when 5 MiB are already unacknowledged, the connection is
  destroyed, and \<open>mining.notify\<close> is never written.
\<close>

theorem C6_counterexample:
  "\<not> destroyed (new_Connection\<lparr> difficulty := Fin 16, nextDifficulty := Fin 32, drainSize := 5242880,
        lastRetarget := 1000, submissions := 3 \<rparr>)
   \<and> nextDifficulty (new_Connection\<lparr> difficulty := Fin 16, nextDifficulty := Fin 32, drainSize := 5242880,
        lastRetarget := 1000, submissions := 3 \<rparr>) \<noteq> Fin (- 1)
   \<and> events (snd (sendJob (sample_env\<lparr> socket_write := (\<lambda>h t. False) \<rparr>) 2000
        (Job_fromTemplate (ascii ''job-00000001'') sample_attempt)
        (new_Connection\<lparr> difficulty := Fin 16, nextDifficulty := Fin 32, drainSize := 5242880,
           lastRetarget := 1000, submissions := 3 \<rparr>)))
     = [Socket_write (ascii ''mining.set_difficulty'' @ [0x0A]),
        Locker_destroy, Socket_destroy, Emit_close]"
proof -
  let ?E = "sample_env\<lparr> socket_write := (\<lambda>h t. False) \<rparr>"
  let ?j = "Job_fromTemplate (ascii ''job-00000001'') sample_attempt :: (nat, nat) Job"
  obtain arr where arr: "Job_toJSON (hashLeaf ?E) ?j = Inr arr"
    using sample_job_toJSON by blast
  have mtext: "method_text ?E m ps = ascii m @ [0x0A]" for m ps
    by (rule sample_method_text) (simp add: sample_env_def)
  have len: "byteLength (ascii ''mining.set_difficulty'' @ [0x0A]) = 22"
    by (simp add: ascii_def)
  show ?thesis
    by (simp add: sendJob_pending [OF arr] mtext len Connection_write_def destroy_def
        new_Connection_def Let_def)
qed

section \<open>Framing\<close>

lemma fromRaw_error: "ClientPacket_fromRaw P l = Inl e \<Longrightarrow> e \<noteq> Error m"
  by (auto simp: ClientPacket_fromRaw_def Let_def split: option.splits json.splits if_splits)

lemma feed_lines_destroyed: "destroyed (feed_lines E ls c) = destroyed c"
  by (induction ls arbitrary: c) (auto simp: Connection_error_def split: sum.splits)

lemma feed_lines_recv: "recv (feed_lines E ls c) = recv c"
  by (induction ls arbitrary: c) (auto simp: Connection_error_def split: sum.splits)

lemma feed_lines_events:
  "\<exists>new. events (feed_lines E ls c) = events c @ new
     \<and> (\<forall>e \<in> set new. (\<exists>p. e = Emit_packet p) \<or> (\<exists>x. e = Emit_error x \<and> (\<forall>m. x \<noteq> Error m)))"
proof (induction ls arbitrary: c)
  case Nil
  show ?case by simp
next
  case (Cons l ls)
  show ?case
  proof (cases "length l = 0")
    case True
    with Cons.IH [of c] show ?thesis by simp
  next
    case False
    show ?thesis
    proof (cases "ClientPacket_fromRaw (JSON_parse E) l")
      case (Inl e)
      then have e: "\<forall>m. e \<noteq> Error m" using fromRaw_error by blast
      from Cons.IH [of "Connection_error e c"] obtain new where
        new: "events (feed_lines E ls (Connection_error e c)) = events (Connection_error e c) @ new"
          "\<forall>e \<in> set new. (\<exists>p. e = Emit_packet p) \<or> (\<exists>x. e = Emit_error x \<and> (\<forall>m. x \<noteq> Error m))"
        by blast
      show ?thesis
      proof (cases "destroyed c")
        case True
        with new Inl False show ?thesis by (auto simp: Connection_error_def)
      next
        case live: False
        have "events (feed_lines E (l # ls) c) = events c @ (Emit_error e # new)"
          using new(1) Inl False live by (simp add: Connection_error_def)
        moreover have "\<forall>e' \<in> set (Emit_error e # new).
            (\<exists>p. e' = Emit_packet p) \<or> (\<exists>x. e' = Emit_error x \<and> (\<forall>m. x \<noteq> Error m))"
          using new(2) e by simp
        ultimately show ?thesis by blast
      qed
    next
      case (Inr msg)
      from Cons.IH [of "c\<lparr> events := events c @ [Emit_packet msg] \<rparr>"] obtain new where
        new: "events (feed_lines E ls (c\<lparr> events := events c @ [Emit_packet msg] \<rparr>))
                = events c @ [Emit_packet msg] @ new"
          "\<forall>e \<in> set new. (\<exists>p. e = Emit_packet p) \<or> (\<exists>x. e = Emit_error x \<and> (\<forall>m. x \<noteq> Error m))"
        by auto
      have "events (feed_lines E (l # ls) c) = events c @ (Emit_packet msg # new)"
        using new(1) Inr False by simp
      moreover have "\<forall>e' \<in> set (Emit_packet msg # new).
          (\<exists>p. e' = Emit_packet p) \<or> (\<exists>x. e' = Emit_error x \<and> (\<forall>m. x \<noteq> Error m))"
        using new(2) by simp
      ultimately show ?thesis by blast
    qed
  qed
qed

lemma split_lines_nonempty: "split_lines acc s \<noteq> []"
  by (induction acc s rule: split_lines.induct) simp_all

lemma split_lines_last_length: "length (last (split_lines acc s)) \<le> length acc + length s"
proof (induction acc s rule: split_lines.induct)
  case (1 acc)
  show ?case by simp
next
  case (2 acc c cs)
  show ?case
  proof (cases "c = 0x0A")
    case True
    have ne: "split_lines [] (dropWhile (\<lambda>x. x = 0x0A) cs) \<noteq> []"
      by (rule split_lines_nonempty)
    have "length (dropWhile (\<lambda>x. x = 0x0A) cs) \<le> length cs"
      by (rule length_dropWhile_le)
    with "2.IH"(1) [OF True] True ne show ?thesis by simp
  next
    case False
    with "2.IH"(2) [OF False] show ?thesis by simp
  qed
qed

lemma redirect_events:
  "\<not> destroyed c \<Longrightarrow>
   events (redirect E c)
     = events c @ [Socket_write (redirect_response E), Locker_destroy, Socket_destroy, Emit_close]
   \<and> destroyed (redirect E c) \<and> recv (redirect E c) = recv c"
  by (simp add: redirect_def Connection_write_def destroy_def Let_def)


lemma feed_oversized:
  "\<not> destroyed c \<Longrightarrow> 100000 \<le> length (recv c @ data) \<Longrightarrow>
   feed E data c
     = c\<lparr> recv := recv c @ data, destroyed := True,
           events := events c @ [Emit_error (Error ''Too much data buffered (%s).''),
                                 Locker_destroy, Socket_destroy, Emit_close] \<rparr>"
  by (simp add: feed_def Connection_error_def destroy_def)

lemma feed_http:
  "length (recv c @ data) < 100000 \<Longrightarrow> http_test (recv c @ data) \<Longrightarrow>
   feed E data c = redirect E (c\<lparr> recv := recv c @ data \<rparr>)"
  by (simp add: feed_def)

lemma feed_plain:
  "length (recv c @ data) < 100000 \<Longrightarrow> \<not> http_test (recv c @ data) \<Longrightarrow>
   feed E data c
     = feed_lines E (butlast (split_lines [] (filter (\<lambda>x. x \<noteq> 0x0D) (recv c @ data))))
         (c\<lparr> recv := last (split_lines [] (filter (\<lambda>x. x \<noteq> 0x0D) (recv c @ data))) \<rparr>)"
  by (simp add: feed_def Let_def)

text \<open>
  Claim C8, amended.  On a connection that is not destroyed and whose buffer stays under
  the size cap, \<open>feed\<close> redirects exactly when the buffer (what was retained and the
  new text) contains \<open>HTTP/1.1\<close> somewhere, letters in either case, whatever was
  decoded before: it hands the fixed response to the socket and destroys the
  connection.  Otherwise it writes nothing and the connection stays open.  The response
  is a 200 with the \<open>X-Stratum\<close> header for the public host and port,
  \<open>Connection: Close\<close> and the JSON body.
\<close>

theorem C8_redirect:
  assumes "\<not> destroyed c" and "length (recv c @ data) < 100000"
  shows
    "(http_test (recv c @ data) \<longrightarrow>
        events (feed E data c)
          = events c @ [Socket_write (redirect_response E), Locker_destroy, Socket_destroy, Emit_close]
        \<and> destroyed (feed E data c))
     \<and> (\<not> http_test (recv c @ data) \<longrightarrow>
        \<not> destroyed (feed E data c)
        \<and> (\<forall>t. Socket_write t \<notin> set (drop (length (events c)) (events (feed E data c)))))
     \<and> redirect_response E
        = ascii ''HTTP/1.1 200 OK'' @ [0x0D, 0x0A]
          @ ascii ''X-Stratum: stratum+tcp://'' @ publicHost E @ ascii '':'' @ toString10 (publicPort E)
          @ [0x0D, 0x0A]
          @ ascii ''Connection: Close'' @ [0x0D, 0x0A]
          @ ascii ''Content-Type: application/json; charset=utf-8'' @ [0x0D, 0x0A]
          @ ascii ''Content-Length: 38'' @ [0x0D, 0x0A, 0x0D, 0x0A, 0x0D, 0x0A]
          @ ascii ''{\"error\":null,\"result\":false,\"id\":0}''"
proof (intro conjI impI)
  assume h: "http_test (recv c @ data)"
  have live: "\<not> destroyed (c\<lparr> recv := recv c @ data \<rparr>)" using assms(1) by simp
  from redirect_events [OF live, of E]
  show "events (feed E data c)
          = events c @ [Socket_write (redirect_response E), Locker_destroy, Socket_destroy, Emit_close]"
    and "destroyed (feed E data c)"
    by (simp_all add: feed_http [OF assms(2) h])
next
  assume h: "\<not> http_test (recv c @ data)"
  let ?ls = "split_lines [] (filter (\<lambda>x. x \<noteq> 0x0D) (recv c @ data))"
  let ?c = "c\<lparr> recv := last ?ls \<rparr>"
  have run: "feed E data c = feed_lines E (butlast ?ls) ?c"
    by (rule feed_plain [OF assms(2) h])
  show "\<not> destroyed (feed E data c)"
    using assms(1) by (simp add: run feed_lines_destroyed)
  from feed_lines_events [of E "butlast ?ls" ?c] obtain new where
    new: "events (feed_lines E (butlast ?ls) ?c) = events c @ new"
      "\<forall>e \<in> set new. (\<exists>p. e = Emit_packet p) \<or> (\<exists>x. e = Emit_error x \<and> (\<forall>m. x \<noteq> Error m))"
    by auto
  show "\<forall>t. Socket_write t \<notin> set (drop (length (events c)) (events (feed E data c)))"
    using new by (auto simp: run)
next
  show "redirect_response E
        = ascii ''HTTP/1.1 200 OK'' @ [0x0D, 0x0A]
          @ ascii ''X-Stratum: stratum+tcp://'' @ publicHost E @ ascii '':'' @ toString10 (publicPort E)
          @ [0x0D, 0x0A]
          @ ascii ''Connection: Close'' @ [0x0D, 0x0A]
          @ ascii ''Content-Type: application/json; charset=utf-8'' @ [0x0D, 0x0A]
          @ ascii ''Content-Length: 38'' @ [0x0D, 0x0A, 0x0D, 0x0A, 0x0D, 0x0A]
          @ ascii ''{\"error\":null,\"result\":false,\"id\":0}''"
    by (simp add: redirect_response_def)
qed

lemma feed_lines_events_live:
  "\<not> destroyed c \<Longrightarrow>
   events (feed_lines E ls c) = events c @ map (line_event E) (filter (\<lambda>l. l \<noteq> []) ls)"
proof (induction ls arbitrary: c)
  case Nil
  show ?case by simp
next
  case (Cons l ls)
  show ?case
  proof (cases "l = []")
    case True
    with Cons show ?thesis by simp
  next
    case False
    show ?thesis
    proof (cases "ClientPacket_fromRaw (JSON_parse E) l")
      case (Inl e)
      have "\<not> destroyed (Connection_error e c)"
        using Cons.prems by (simp add: Connection_error_def)
      from Cons.IH [OF this] Inl False Cons.prems show ?thesis
        by (simp add: Connection_error_def line_event_def)
    next
      case (Inr msg)
      have "\<not> destroyed (c\<lparr> events := events c @ [Emit_packet msg] \<rparr>)"
        using Cons.prems by simp
      from Cons.IH [OF this] Inr False show ?thesis
        by (simp add: line_event_def)
    qed
  qed
qed

lemma complete_lines_dropWhile:
  "filter (\<lambda>l. l \<noteq> []) (complete_lines [] (dropWhile (\<lambda>x. x = 0x0A) s))
     = filter (\<lambda>l. l \<noteq> []) (complete_lines [] s)"
  by (induction s) simp_all

lemma split_lines_complete:
  "filter (\<lambda>l. l \<noteq> []) (butlast (split_lines acc s))
     = filter (\<lambda>l. l \<noteq> []) (complete_lines acc s)"
proof (induction acc s rule: split_lines.induct)
  case (1 acc)
  show ?case by simp
next
  case (2 acc c cs)
  show ?case
  proof (cases "c = 0x0A")
    case True
    have "butlast (acc # split_lines [] (dropWhile (\<lambda>x. x = 0x0A) cs))
        = acc # butlast (split_lines [] (dropWhile (\<lambda>x. x = 0x0A) cs))"
      by (simp add: split_lines_nonempty)
    with "2.IH"(1) [OF True] True show ?thesis
      by (simp add: complete_lines_dropWhile)
  next
    case False
    with "2.IH"(2) [OF False] show ?thesis by simp
  qed
qed

lemma split_lines_last_no_feed:
  "0x0A \<notin> set acc \<Longrightarrow> 0x0A \<notin> set (last (split_lines acc s))"
proof (induction acc s rule: split_lines.induct)
  case (1 acc)
  then show ?case by simp
next
  case (2 acc c cs)
  show ?case
  proof (cases "c = 0x0A")
    case True
    with "2.IH"(1) [OF True] show ?thesis
      by (simp add: split_lines_nonempty)
  next
    case False
    with "2.IH"(2) [OF False] "2.prems" show ?thesis by simp
  qed
qed

lemma split_lines_last_suffix:
  "\<exists>pre. acc @ s = pre @ last (split_lines acc s) \<and> (pre = [] \<or> last pre = 0x0A)"
proof (induction acc s rule: split_lines.induct)
  case (1 acc)
  show ?case by simp
next
  case (2 acc c cs)
  show ?case
  proof (cases "c = 0x0A")
    case True
    let ?rest = "dropWhile (\<lambda>x. x = 0x0A) cs"
    let ?run = "takeWhile (\<lambda>x. x = 0x0A) cs"
    from "2.IH"(1) [OF True] obtain pre where
      pre: "?rest = pre @ last (split_lines [] ?rest)" "pre = [] \<or> last pre = 0x0A"
      by auto
    have run: "?run = [] \<or> last ?run = 0x0A"
    proof (cases "?run = []")
      case False
      then have "last ?run \<in> set ?run" by (rule last_in_set)
      then have "last ?run = 0x0A" by (rule set_takeWhileD [THEN conjunct2])
      then show ?thesis by simp
    qed simp
    have "acc @ c # cs = (acc @ c # ?run @ pre) @ last (split_lines [] ?rest)"
    proof -
      have "cs = ?run @ ?rest" by simp
      then have "acc @ c # cs = acc @ c # ?run @ ?rest" by simp
      also have "\<dots> = acc @ c # ?run @ pre @ last (split_lines [] ?rest)"
        using pre(1) by simp
      finally show ?thesis by simp
    qed
    moreover have "last (acc @ c # ?run @ pre) = 0x0A"
      using pre(2) run True by (cases "pre = []"; cases "?run = []") simp_all
    moreover have "last (split_lines acc (c # cs)) = last (split_lines [] ?rest)"
      using True by (simp add: split_lines_nonempty)
    ultimately show ?thesis by metis
  next
    case False
    with "2.IH"(2) [OF False] show ?thesis by simp
  qed
qed

text \<open>
  Claim C9, amended.  On a connection that is not destroyed, \<open>feed\<close> fails for size
  exactly when what was retained together with the new text has at least 100000 code
  units; the test comes before any line is split off, so then no line of the call is
  decoded.  Below that the size error is not raised and what is retained afterwards is
  below the cap; and unless the text holds \<open>HTTP/1.1\<close> (then the connection is
  redirected) every complete line is consumed: each one that is not empty is decoded, in
  order, into a packet or an error, and only what follows the last line feed is
  retained.
\<close>

theorem C9_size_cap:
  assumes "\<not> destroyed c"
  shows
    "(100000 \<le> length (recv c @ data) \<longrightarrow>
        feed E data c
          = c\<lparr> recv := recv c @ data, destroyed := True,
                events := events c @ [Emit_error (Error ''Too much data buffered (%s).''),
                                      Locker_destroy, Socket_destroy, Emit_close] \<rparr>)
     \<and> (length (recv c @ data) < 100000 \<longrightarrow>
        Emit_error (Error ''Too much data buffered (%s).'')
          \<notin> set (drop (length (events c)) (events (feed E data c)))
        \<and> length (recv (feed E data c)) < 100000)
     \<and> (length (recv c @ data) < 100000 \<and> \<not> http_test (recv c @ data) \<longrightarrow>
        \<not> destroyed (feed E data c)
        \<and> events (feed E data c)
            = events c
              @ map (line_event E)
                  (filter (\<lambda>l. l \<noteq> [])
                     (complete_lines [] (filter (\<lambda>x. x \<noteq> 0x0D) (recv c @ data))))
        \<and> 0x0A \<notin> set (recv (feed E data c))
        \<and> (\<exists>pre. filter (\<lambda>x. x \<noteq> 0x0D) (recv c @ data) = pre @ recv (feed E data c)
                 \<and> (pre = [] \<or> last pre = 0x0A)))"
proof (intro conjI impI)
  assume "100000 \<le> length (recv c @ data)"
  with assms show "feed E data c
          = c\<lparr> recv := recv c @ data, destroyed := True,
                events := events c @ [Emit_error (Error ''Too much data buffered (%s).''),
                                      Locker_destroy, Socket_destroy, Emit_close] \<rparr>"
    by (rule feed_oversized)
next
  assume small: "length (recv c @ data) < 100000"
  let ?ls = "split_lines [] (filter (\<lambda>x. x \<noteq> 0x0D) (recv c @ data))"
  let ?c = "c\<lparr> recv := last ?ls \<rparr>"
  have live: "\<not> destroyed (c\<lparr> recv := recv c @ data \<rparr>)" using assms by simp
  show "Emit_error (Error ''Too much data buffered (%s).'')
          \<notin> set (drop (length (events c)) (events (feed E data c)))"
  proof (cases "http_test (recv c @ data)")
    case True
    from redirect_events [OF live, of E] show ?thesis
      by (simp add: feed_http [OF small True])
  next
    case False
    from feed_lines_events [of E "butlast ?ls" ?c] obtain new where
      new: "events (feed_lines E (butlast ?ls) ?c) = events c @ new"
        "\<forall>e \<in> set new. (\<exists>p. e = Emit_packet p) \<or> (\<exists>x. e = Emit_error x \<and> (\<forall>m. x \<noteq> Error m))"
      by auto
    then show ?thesis
      by (auto simp: feed_plain [OF small False])
  qed
  show "length (recv (feed E data c)) < 100000"
  proof (cases "http_test (recv c @ data)")
    case True
    from redirect_events [OF live, of E] small show ?thesis
      by (simp add: feed_http [OF small True])
  next
    case False
    have "length (last ?ls) \<le> length (filter (\<lambda>x. x \<noteq> 0x0D) (recv c @ data))"
      using split_lines_last_length [of "[]" "filter (\<lambda>x. x \<noteq> 0x0D) (recv c @ data)"] by simp
    also have "\<dots> \<le> length (recv c @ data)"
      by (rule length_filter_le)
    finally show ?thesis
      using small by (simp add: feed_plain [OF small False] feed_lines_recv)
  qed
next
  assume plain: "length (recv c @ data) < 100000 \<and> \<not> http_test (recv c @ data)"
  let ?s = "filter (\<lambda>x. x \<noteq> 0x0D) (recv c @ data)"
  let ?ls = "split_lines [] ?s"
  let ?c = "c\<lparr> recv := last ?ls \<rparr>"
  have run: "feed E data c = feed_lines E (butlast ?ls) ?c"
    using plain by (simp add: feed_plain)
  have live: "\<not> destroyed ?c" using assms by simp
  show "\<not> destroyed (feed E data c)"
    using assms by (simp add: run feed_lines_destroyed)
  show "events (feed E data c)
      = events c @ map (line_event E) (filter (\<lambda>l. l \<noteq> []) (complete_lines [] ?s))"
    using feed_lines_events_live [OF live, of E "butlast ?ls"]
    by (simp add: run split_lines_complete)
  show "0x0A \<notin> set (recv (feed E data c))"
    using split_lines_last_no_feed [of "[]" ?s] by (simp add: run feed_lines_recv)
  show "\<exists>pre. ?s = pre @ recv (feed E data c) \<and> (pre = [] \<or> last pre = 0x0A)"
    using split_lines_last_suffix [of "[]" ?s] by (simp add: run feed_lines_recv)
qed

lemma feed_GET:
  "\<not> destroyed c \<Longrightarrow> recv c = [] \<Longrightarrow>
   events (feed E (ascii ''GET / HTTP/1.1'' @ [0x0D, 0x0A, 0x0D, 0x0A]) c)
     = events c @ [Socket_write (redirect_response E), Locker_destroy, Socket_destroy, Emit_close]
   \<and> destroyed (feed E (ascii ''GET / HTTP/1.1'' @ [0x0D, 0x0A, 0x0D, 0x0A]) c)"
proof -
  assume c: "\<not> destroyed c" "recv c = []"
  have h: "http_test (recv c @ ascii ''GET / HTTP/1.1'' @ [0x0D, 0x0A, 0x0D, 0x0A])"
    by (simp add: c http_test_def ascii_def upper_def)
  have l: "length (recv c @ ascii ''GET / HTTP/1.1'' @ [0x0D, 0x0A, 0x0D, 0x0A]) < 100000"
    by (simp add: c ascii_def)
  have live: "\<not> destroyed (c\<lparr> recv := recv c @ ascii ''GET / HTTP/1.1'' @ [0x0D, 0x0A, 0x0D, 0x0A] \<rparr>)"
    using c by simp
  from redirect_events [OF live, of E] show ?thesis
    by (simp add: feed_http [OF l h])
qed

lemma feed_subscribe:
  "feed sample_env
     (ascii ''{\"id\":1,\"method\":\"mining.subscribe\",\"params\":[]}'' @ [0x0A]) new_Connection
   = new_Connection\<lparr> events :=
       [Emit_packet \<lparr> ClientPacket.id = JNumber 1, method = ascii ''mining.subscribe'', params = [] \<rparr>] \<rparr>"
proof -
  let ?line = "ascii ''{\"id\":1,\"method\":\"mining.subscribe\",\"params\":[]}''"
  have r: "recv new_Connection = []" by (simp add: new_Connection_def)
  have h: "\<not> http_test (recv new_Connection @ ?line @ [0x0A])"
    by (simp add: r http_test_def ascii_def upper_def)
  have l: "length (recv new_Connection @ ?line @ [0x0A]) < 100000"
    by (simp add: r ascii_def)
  have s: "split_lines [] (filter (\<lambda>x. x \<noteq> 0x0D) (recv new_Connection @ ?line @ [0x0A])) = [?line, []]"
    by (simp add: r ascii_def)
  have p: "ClientPacket_fromRaw (JSON_parse sample_env) ?line
      = Inr \<lparr> ClientPacket.id = JNumber 1, method = ascii ''mining.subscribe'', params = [] \<rparr>"
    by (simp add: ClientPacket_fromRaw_def sample_env_def sample_parse_def getProp_def truthy_def
        ascii_def)
  have n: "length ?line \<noteq> 0" by (simp add: ascii_def)
  show ?thesis
    unfolding feed_plain [OF l h] s using p n by (simp add: new_Connection_def)
qed

theorem C8_redirect_witness:
  "events (feed sample_env (ascii ''GET / HTTP/1.1'' @ [0x0D, 0x0A, 0x0D, 0x0A]) new_Connection)
     = [Socket_write (redirect_response sample_env), Locker_destroy, Socket_destroy, Emit_close]
   \<and> destroyed (feed sample_env (ascii ''GET / HTTP/1.1'' @ [0x0D, 0x0A, 0x0D, 0x0A]) new_Connection)
   \<and> redirect_response sample_env
      = ascii ''HTTP/1.1 200 OK'' @ [0x0D, 0x0A]
        @ ascii ''X-Stratum: stratum+tcp://pool.example.org:3008'' @ [0x0D, 0x0A]
        @ ascii ''Connection: Close'' @ [0x0D, 0x0A]
        @ ascii ''Content-Type: application/json; charset=utf-8'' @ [0x0D, 0x0A]
        @ ascii ''Content-Length: 38'' @ [0x0D, 0x0A, 0x0D, 0x0A, 0x0D, 0x0A]
        @ ascii ''{\"error\":null,\"result\":false,\"id\":0}''"
proof -
  let ?data = "ascii ''GET / HTTP/1.1'' @ [0x0D, 0x0A, 0x0D, 0x0A]"
  have live: "\<not> destroyed new_Connection" by (simp add: new_Connection_def)
  have r: "recv new_Connection = []" by (simp add: new_Connection_def)
  have l: "length (recv new_Connection @ ?data) < 100000" by (simp add: r ascii_def)
  have h: "http_test (recv new_Connection @ ?data)"
    by (simp add: r http_test_def ascii_def upper_def)
  have e: "events new_Connection = []" by (simp add: new_Connection_def)
  have port: "toString10 3008 = ascii ''3008''"
    by (simp add: toString10.simps hexDigit_def ascii_def)
  from C8_redirect [OF live l, of sample_env] h e show ?thesis
    by (simp add: sample_env_def port) (simp add: ascii_def)
qed

text \<open>
  Claim C8, as stated, fails for data that arrives after a valid protocol line: the
  first call decodes a \<open>mining.subscribe\<close> packet, the second still redirects.
\<close>

theorem C8_counterexample:
  "feed sample_env
     (ascii ''{\"id\":1,\"method\":\"mining.subscribe\",\"params\":[]}'' @ [0x0A]) new_Connection
   = new_Connection\<lparr> events :=
       [Emit_packet \<lparr> ClientPacket.id = JNumber 1, method = ascii ''mining.subscribe'', params = [] \<rparr>] \<rparr>
   \<and> events (feed sample_env (ascii ''GET / HTTP/1.1'' @ [0x0D, 0x0A, 0x0D, 0x0A])
        (feed sample_env
          (ascii ''{\"id\":1,\"method\":\"mining.subscribe\",\"params\":[]}'' @ [0x0A]) new_Connection))
     = [Emit_packet \<lparr> ClientPacket.id = JNumber 1, method = ascii ''mining.subscribe'', params = [] \<rparr>,
        Socket_write (redirect_response sample_env), Locker_destroy, Socket_destroy, Emit_close]"
proof -
  let ?c = "new_Connection\<lparr> events :=
       [Emit_packet \<lparr> ClientPacket.id = JNumber 1, method = ascii ''mining.subscribe'', params = [] \<rparr>] \<rparr>"
  have "\<not> destroyed ?c" and "recv ?c = []"
    by (simp_all add: new_Connection_def)
  from feed_GET [OF this, of sample_env] show ?thesis
    unfolding feed_subscribe by simp
qed

theorem C9_size_cap_witness:
  "feed sample_env (replicate 100000 0x61) new_Connection
     = new_Connection\<lparr> recv := replicate 100000 0x61, destroyed := True,
         events := [Emit_error (Error ''Too much data buffered (%s).''),
                    Locker_destroy, Socket_destroy, Emit_close] \<rparr>
   \<and> events (feed sample_env
        (ascii ''{\"id\":1,\"method\":\"mining.subscribe\",\"params\":[]}'' @ [0x0D, 0x0A]
           @ ascii ''{\"id\":2'') new_Connection)
     = [Emit_packet \<lparr> ClientPacket.id = JNumber 1, method = ascii ''mining.subscribe'', params = [] \<rparr>]
   \<and> recv (feed sample_env
        (ascii ''{\"id\":1,\"method\":\"mining.subscribe\",\"params\":[]}'' @ [0x0D, 0x0A]
           @ ascii ''{\"id\":2'') new_Connection)
     = ascii ''{\"id\":2''
   \<and> \<not> destroyed (feed sample_env
        (ascii ''{\"id\":1,\"method\":\"mining.subscribe\",\"params\":[]}'' @ [0x0D, 0x0A]
           @ ascii ''{\"id\":2'') new_Connection)"
proof -
  let ?line = "ascii ''{\"id\":1,\"method\":\"mining.subscribe\",\"params\":[]}''"
  let ?data = "?line @ [0x0D, 0x0A] @ ascii ''{\"id\":2''"
  have live: "\<not> destroyed new_Connection" by (simp add: new_Connection_def)
  have r: "recv new_Connection = []" and e: "events new_Connection = []"
    by (simp_all add: new_Connection_def)
  have h: "\<not> http_test (recv new_Connection @ ?data)"
    by (simp add: r http_test_def ascii_def upper_def)
  have l: "length (recv new_Connection @ ?data) < 100000"
    by (simp add: r ascii_def)
  have s: "split_lines [] (filter (\<lambda>x. x \<noteq> 0x0D) (recv new_Connection @ ?data))
      = [?line, ascii ''{\"id\":2'']"
    by (simp add: r ascii_def)
  have cl: "complete_lines [] (filter (\<lambda>x. x \<noteq> 0x0D) (recv new_Connection @ ?data)) = [?line]"
    by (simp add: r ascii_def)
  have p: "line_event sample_env ?line
      = Emit_packet \<lparr> ClientPacket.id = JNumber 1, method = ascii ''mining.subscribe'', params = [] \<rparr>"
    by (simp add: line_event_def ClientPacket_fromRaw_def sample_env_def sample_parse_def
        getProp_def truthy_def ascii_def)
  have n: "?line \<noteq> []" by (simp add: ascii_def)
  have kept: "recv (feed sample_env ?data new_Connection) = ascii ''{\"id\":2''"
    by (simp only: feed_plain [OF l h] feed_lines_recv s) simp
  have big: "100000 \<le> length (recv new_Connection @ replicate 100000 (0x61 :: code_unit))"
    by simp
  from C9_size_cap [OF live, of "replicate 100000 0x61" sample_env] big
  have first: "feed sample_env (replicate 100000 0x61) new_Connection
     = new_Connection\<lparr> recv := replicate 100000 0x61, destroyed := True,
         events := [Emit_error (Error ''Too much data buffered (%s).''),
                    Locker_destroy, Socket_destroy, Emit_close] \<rparr>"
    by (simp add: r e)
  from C9_size_cap [OF live, of ?data sample_env] l h
  have "\<not> destroyed (feed sample_env ?data new_Connection)"
    and "events (feed sample_env ?data new_Connection)
      = events new_Connection
        @ map (line_event sample_env)
            (filter (\<lambda>l. l \<noteq> [])
               (complete_lines [] (filter (\<lambda>x. x \<noteq> 0x0D) (recv new_Connection @ ?data))))"
    by blast+
  then show ?thesis
    using first kept by (simp only: cl e) (simp add: p n)
qed

text \<open>
  Claim C9, as stated, fails when a complete line is followed by a long partial one:
  the line \<open>{}\<close> is complete within the cap and the partial line after it has 99998
  code units, yet the call fails for size and decodes nothing.
\<close>

theorem C9_counterexample:
  "(ascii ''{}'' @ 0x0A # replicate 99998 0x20) ! 2 = 0x0A
   \<and> length (replicate 99998 (0x20 :: code_unit)) < 100000
   \<and> feed sample_env (ascii ''{}'' @ 0x0A # replicate 99998 0x20) new_Connection
     = new_Connection\<lparr> recv := ascii ''{}'' @ 0x0A # replicate 99998 0x20, destroyed := True,
         events := [Emit_error (Error ''Too much data buffered (%s).''),
                    Locker_destroy, Socket_destroy, Emit_close] \<rparr>"
proof -
  have live: "\<not> destroyed new_Connection" by (simp add: new_Connection_def)
  have big: "100000 \<le> length (recv new_Connection @ ascii ''{}'' @ 0x0A # replicate 99998 0x20)"
    by (simp add: ascii_def)
  have "(ascii ''{}'' @ 0x0A # replicate 99998 0x20) ! 2 = 0x0A"
    by (simp add: ascii_def)
  with feed_oversized [OF live big, of sample_env] show ?thesis
    by (simp add: new_Connection_def)
qed

end
